theory Spec2Isabelle
  imports Complex_Main "HOL-Library.Sublist"
begin

section \<open>The resume pipeline of smartapply-ai\<close>

text \<open>
  The development embeds two source files: the Express handler of
  \<^verbatim>\<open>POST /api/analyze-resume\<close> (server/index.ts) and the event handlers
  \<^verbatim>\<open>handleFileUpload\<close> and \<^verbatim>\<open>handleGenerateCoverLetter\<close> of the
  ResumeAnalyzer component.

  The texts the handlers receive and build (resume, job description, prompts, replies
  of the completion service, file names) are modelled as \<^typ>\<open>string\<close>: a
  \<^typ>\<open>char\<close> stands for a code unit in the range 0..255. The strings inside a parsed
  JSON value are lists of 16-bit code units, since an escape names any of them.
\<close>

subsection \<open>String primitives of the platform\<close>

text \<open>
  \<^verbatim>\<open>String.prototype.trim\<close> removes white space and line terminators from both ends.
  In the range 0..255 these are TAB, LF, VT, FF, CR, SP and NBSP.
\<close>

definition is_white_space :: "char \<Rightarrow> bool" where
  "is_white_space c = (of_char c \<in> {9, 10, 11, 12, 13, 32, 160 :: nat})"

definition trim :: "string \<Rightarrow> string" where
  "trim s = rev (dropWhile is_white_space (rev (dropWhile is_white_space s)))"

text \<open>\<^verbatim>\<open>s.indexOf(c)\<close> and \<^verbatim>\<open>s.lastIndexOf(c)\<close> for a one-character pattern; \<open>-1\<close> when absent.\<close>

fun indexOf :: "string \<Rightarrow> char \<Rightarrow> int" where
  "indexOf [] c = -1"
| "indexOf (x # xs) c =
     (if x = c then 0 else (let i = indexOf xs c in if i = -1 then -1 else i + 1))"

fun lastIndexOf :: "string \<Rightarrow> char \<Rightarrow> int" where
  "lastIndexOf [] c = -1"
| "lastIndexOf (x # xs) c =
     (let i = lastIndexOf xs c in
      if i \<noteq> -1 then i + 1 else if x = c then 0 else -1)"

text \<open>
  \<^verbatim>\<open>s.slice(start, end)\<close>: a negative index counts from the end, both indices are
  clamped to the string, and an empty range gives the empty string.
\<close>

definition slice :: "string \<Rightarrow> int \<Rightarrow> int \<Rightarrow> string" where
  "slice s start end' =
     (let len = int (length s);
          from = (if start < 0 then max (len + start) 0 else min start len);
          to = (if end' < 0 then max (len + end') 0 else min end' len)
      in take (nat (max (to - from) 0)) (drop (nat from) s))"

text \<open>\<^verbatim>\<open>s.includes(p)\<close> and \<^verbatim>\<open>s.endsWith(p)\<close>.\<close>

definition includes_str :: "string \<Rightarrow> string \<Rightarrow> bool" where
  "includes_str s p = sublist p s"

definition endsWith :: "string \<Rightarrow> string \<Rightarrow> bool" where
  "endsWith s p = suffix p s"

text \<open>
  \<^verbatim>\<open>s.toLowerCase()\<close> on the code units 0..255: the ASCII capitals and the Latin-1
  capitals (all of 0xC0..0xDE but the multiplication sign 0xD7) move up by 32.
\<close>

definition toLowerCase_char :: "char \<Rightarrow> char" where
  "toLowerCase_char c =
     (let n = (of_char c :: nat) in
      if (65 \<le> n \<and> n \<le> 90) \<or> (192 \<le> n \<and> n \<le> 222 \<and> n \<noteq> 215)
      then char_of (n + 32) else c)"

definition toLowerCase :: "string \<Rightarrow> string" where
  "toLowerCase s = map toLowerCase_char s"

text \<open>\<^verbatim>\<open>xs.join(sep)\<close> on an array of strings.\<close>

fun join :: "string list \<Rightarrow> string \<Rightarrow> string" where
  "join [] sep = []"
| "join [x] sep = x"
| "join (x # y # ys) sep = x @ sep @ join (y # ys) sep"

subsection \<open>Thrown values\<close>

text \<open>
  A rejected promise or a \<^verbatim>\<open>throw\<close> carries either an \<^verbatim>\<open>Error\<close> with its message or
  some other value. The handlers only ever test \<^verbatim>\<open>err instanceof Error\<close> and read
  \<^verbatim>\<open>err.message\<close>.
\<close>

datatype thrown = Error string | NonError

subsection \<open>JSON values\<close>

text \<open>
  JSON values over a type \<open>'s\<close> of strings. What \<^verbatim>\<open>JSON.parse\<close> yields holds strings
  of 16-bit code units, written as lists of natural numbers (\<open>wide_string\<close>): an escape
  \<^verbatim>\<open>\uXXXX\<close> names any code unit, whatever the text around it. The bodies the
  component fetches are kept over the texts of the model (\<^typ>\<open>string\<close>).

  A number keeps its lexeme: no handler does arithmetic on a parsed number. An object
  keeps its members in source order; a later duplicate of a key wins on lookup, as it
  does in \<^verbatim>\<open>JSON.parse\<close>.
\<close>

datatype 's json =
    JNull
  | JBool bool
  | JNumber string
  | JString 's
  | JArray "'s json list"
  | JObject "('s \<times> 's json) list"

type_synonym wide_string = "nat list"

text \<open>The code units of a text of the model.\<close>

definition wide :: "string \<Rightarrow> wide_string" where
  "wide s = map of_char s"

text \<open>
  \<^verbatim>\<open>v.k\<close> for the keys the handlers read (\<^verbatim>\<open>strengths\<close>, \<^verbatim>\<open>improvements\<close>,
  \<^verbatim>\<open>tailoring\<close>, \<^verbatim>\<open>customizedResume\<close>, \<^verbatim>\<open>specificChanges\<close>, \<^verbatim>\<open>coverLetter\<close>,
  \<^verbatim>\<open>error\<close>), none of which is a property of a prototype: reading from
  \<^verbatim>\<open>null\<close> throws a TypeError, reading a missing member gives \<^verbatim>\<open>undefined\<close>
  (\<open>None\<close>), and strings, numbers, booleans and arrays have no such member. The
  message of the TypeError is the engine's own wording; the model fixes one.
\<close>

fun get_prop :: "'s json \<Rightarrow> 's \<Rightarrow> thrown + 's json option" where
  "get_prop JNull k = Inl (Error ''Cannot read properties of null'')"
| "get_prop (JObject kvs) k = Inr (map_of (rev kvs) k)"
| "get_prop v k = Inr None"

text \<open>\<^verbatim>\<open>Array.isArray(x) ? x : []\<close> on a possibly undefined value.\<close>

fun array_or_empty :: "'s json option \<Rightarrow> 's json list" where
  "array_or_empty (Some (JArray xs)) = xs"
| "array_or_empty v = []"

subsection \<open>JSON.parse\<close>

text \<open>
  \<^verbatim>\<open>JSON.parse\<close> is a built-in of the platform, written here after the JSON grammar
  (ECMA-404): a lexer that reads one character at a time, and a parser that reads one
  token at a time with an explicit stack of open arrays and objects. Both recurse on
  their input only, so parsing is total. A character of the text that stands inside a
  string literal contributes its code unit; an escape \<^verbatim>\<open>\uXXXX\<close> contributes the code
  unit \<open>XXXX\<close>, so that a surrogate pair is two escapes and two code units.
\<close>

datatype token =
    LBrace | RBrace | LBracket | RBracket | Colon | Comma
  | Str wide_string | Num string | Word string

datatype lex_mode =
    Idle
  | InStr wide_string
  | InEsc wide_string
  | InHex wide_string string
  | InNum string
  | InWord string

definition is_digit :: "char \<Rightarrow> bool" where
  "is_digit c = (let n = (of_char c :: nat) in 48 \<le> n \<and> n \<le> 57)"

definition is_lower :: "char \<Rightarrow> bool" where
  "is_lower c = (let n = (of_char c :: nat) in 97 \<le> n \<and> n \<le> 122)"

definition is_json_space :: "char \<Rightarrow> bool" where
  "is_json_space c = (of_char c \<in> {9, 10, 13, 32 :: nat})"

definition hex_value :: "char \<Rightarrow> nat option" where
  "hex_value c =
     (let n = (of_char c :: nat) in
      if 48 \<le> n \<and> n \<le> 57 then Some (n - 48)
      else if 65 \<le> n \<and> n \<le> 70 then Some (n - 55)
      else if 97 \<le> n \<and> n \<le> 102 then Some (n - 87)
      else None)"

fun hex_number :: "nat \<Rightarrow> string \<Rightarrow> nat option" where
  "hex_number acc [] = Some acc"
| "hex_number acc (c # cs) =
     (case hex_value c of None \<Rightarrow> None | Some d \<Rightarrow> hex_number (16 * acc + d) cs)"

text \<open>The number grammar: \<^verbatim>\<open>-?(0|[1-9][0-9]*)(\.[0-9]+)?([eE][+-]?[0-9]+)?\<close>.\<close>

definition exp_part :: "string \<Rightarrow> bool" where
  "exp_part s =
     (let t = (case s of [] \<Rightarrow> [] | c # r \<Rightarrow> if c = CHR ''+'' \<or> c = CHR ''-'' then r else s)
      in t \<noteq> [] \<and> list_all is_digit t)"

definition exp_opt :: "string \<Rightarrow> bool" where
  "exp_opt s =
     (case s of [] \<Rightarrow> True | c # r \<Rightarrow> (c = CHR ''e'' \<or> c = CHR ''E'') \<and> exp_part r)"

definition frac_opt :: "string \<Rightarrow> bool" where
  "frac_opt s =
     (case s of
        [] \<Rightarrow> True
      | c # r \<Rightarrow>
          if c = CHR ''.''
          then takeWhile is_digit r \<noteq> [] \<and> exp_opt (dropWhile is_digit r)
          else exp_opt s)"

definition int_part :: "string \<Rightarrow> bool" where
  "int_part s =
     (case s of
        [] \<Rightarrow> False
      | c # r \<Rightarrow>
          if c = CHR ''0'' then frac_opt r
          else if is_digit c then frac_opt (dropWhile is_digit r)
          else False)"

definition valid_number :: "string \<Rightarrow> bool" where
  "valid_number s =
     (case s of [] \<Rightarrow> False | c # r \<Rightarrow> if c = CHR ''-'' then int_part r else int_part s)"

definition valid_word :: "string \<Rightarrow> bool" where
  "valid_word w = (w = ''true'' \<or> w = ''false'' \<or> w = ''null'')"

definition idle_step :: "char \<Rightarrow> (lex_mode \<times> token list) option" where
  \<open>idle_step c =
     (if is_json_space c then Some (Idle, [])
      else if c = CHR ''{'' then Some (Idle, [LBrace])
      else if c = CHR ''}'' then Some (Idle, [RBrace])
      else if c = CHR ''['' then Some (Idle, [LBracket])
      else if c = CHR '']'' then Some (Idle, [RBracket])
      else if c = CHR '':'' then Some (Idle, [Colon])
      else if c = CHR '','' then Some (Idle, [Comma])
      else if c = CHR ''"'' then Some (InStr [], [])
      else if c = CHR ''-'' \<or> is_digit c then Some (InNum [c], [])
      else if is_lower c then Some (InWord [c], [])
      else None)\<close>

definition after_token :: "token \<Rightarrow> char \<Rightarrow> (lex_mode \<times> token list) option" where
  "after_token t c = map_option (\<lambda>(m, ts). (m, t # ts)) (idle_step c)"

definition unescape :: "char \<Rightarrow> nat option" where
  \<open>unescape c =
     (if c = CHR ''"'' \<or> c = CHR 0x5C \<or> c = CHR ''/'' then Some (of_char c)
      else if c = CHR ''b'' then Some 8
      else if c = CHR ''f'' then Some 12
      else if c = CHR ''n'' then Some 10
      else if c = CHR ''r'' then Some 13
      else if c = CHR ''t'' then Some 9
      else None)\<close>

text \<open>
  The accumulators of the modes hold what was read so far, latest first: code units
  for a string literal, characters for a number or a word.
\<close>

fun lex_step :: "lex_mode \<Rightarrow> char \<Rightarrow> (lex_mode \<times> token list) option" where
  "lex_step Idle c = idle_step c"
| \<open>lex_step (InStr acc) c =
     (if c = CHR ''"'' then Some (Idle, [Str (rev acc)])
      else if c = CHR 0x5C then Some (InEsc acc, [])
      else if (of_char c :: nat) < 32 then None
      else Some (InStr (of_char c # acc), []))\<close>
| "lex_step (InEsc acc) c =
     (if c = CHR ''u'' then Some (InHex acc [], [])
      else map_option (\<lambda>d. (InStr (d # acc), [])) (unescape c))"
| "lex_step (InHex acc hs) c =
     (if length hs < 3 then (if hex_value c = None then None else Some (InHex acc (c # hs), []))
      else (case hex_number 0 (rev (c # hs)) of
              None \<Rightarrow> None
            | Some n \<Rightarrow> Some (InStr (n # acc), [])))"
| "lex_step (InNum acc) c =
     (if is_digit c \<or> c \<in> set ''+-.eE'' then Some (InNum (c # acc), [])
      else if valid_number (rev acc) then after_token (Num (rev acc)) c
      else None)"
| "lex_step (InWord acc) c =
     (if is_lower c then Some (InWord (c # acc), [])
      else if valid_word (rev acc) then after_token (Word (rev acc)) c
      else None)"

fun lex_end :: "lex_mode \<Rightarrow> token list option" where
  "lex_end Idle = Some []"
| "lex_end (InNum acc) = (if valid_number (rev acc) then Some [Num (rev acc)] else None)"
| "lex_end (InWord acc) = (if valid_word (rev acc) then Some [Word (rev acc)] else None)"
| "lex_end m = None"

fun tokenize :: "lex_mode \<Rightarrow> string \<Rightarrow> token list option" where
  "tokenize m [] = lex_end m"
| "tokenize m (c # cs) =
     (case lex_step m c of
        None \<Rightarrow> None
      | Some (m', ts) \<Rightarrow> map_option (\<lambda>r. ts @ r) (tokenize m' cs))"

datatype frame =
    InArray "wide_string json list"
  | InObject "(wide_string \<times> wide_string json) list"
  | InMember "(wide_string \<times> wide_string json) list" wide_string

datatype expect =
  Value | ValueOrClose | KeyOrClose | Key | ColonOnly | CommaOrClose | End "wide_string json"

fun finish_value :: "wide_string json \<Rightarrow> frame list \<Rightarrow> (frame list \<times> expect) option" where
  "finish_value v [] = Some ([], End v)"
| "finish_value v (InArray vs # st) = Some (InArray (vs @ [v]) # st, CommaOrClose)"
| "finish_value v (InMember kvs k # st) = Some (InObject (kvs @ [(k, v)]) # st, CommaOrClose)"
| "finish_value v (InObject kvs # st) = None"

fun word_value :: "string \<Rightarrow> wide_string json" where
  "word_value w = (if w = ''true'' then JBool True else if w = ''false'' then JBool False else JNull)"

fun start_value :: "token \<Rightarrow> frame list \<Rightarrow> (frame list \<times> expect) option" where
  "start_value (Str s) st = finish_value (JString s) st"
| "start_value (Num n) st = finish_value (JNumber n) st"
| "start_value (Word w) st = finish_value (word_value w) st"
| "start_value LBrace st = Some (InObject [] # st, KeyOrClose)"
| "start_value LBracket st = Some (InArray [] # st, ValueOrClose)"
| "start_value t st = None"

fun start_member :: "token \<Rightarrow> frame list \<Rightarrow> (frame list \<times> expect) option" where
  "start_member (Str k) (InObject kvs # st) = Some (InMember kvs k # st, ColonOnly)"
| "start_member t st = None"

fun close_frame :: "token \<Rightarrow> frame list \<Rightarrow> (frame list \<times> expect) option" where
  "close_frame RBracket (InArray vs # st) = finish_value (JArray vs) st"
| "close_frame RBrace (InObject kvs # st) = finish_value (JObject kvs) st"
| "close_frame t st = None"

fun parse_step :: "frame list \<times> expect \<Rightarrow> token \<Rightarrow> (frame list \<times> expect) option" where
  "parse_step (st, Value) t = start_value t st"
| "parse_step (st, ValueOrClose) t = (if t = RBracket then close_frame t st else start_value t st)"
| "parse_step (st, KeyOrClose) t = (if t = RBrace then close_frame t st else start_member t st)"
| "parse_step (st, Key) t = start_member t st"
| "parse_step (st, ColonOnly) t = (if t = Colon then Some (st, Value) else None)"
| "parse_step (st, CommaOrClose) t =
     (if t = Comma
      then (case st of
              InArray vs # r \<Rightarrow> Some (st, Value)
            | InObject kvs # r \<Rightarrow> Some (st, Key)
            | _ \<Rightarrow> None)
      else close_frame t st)"
| "parse_step (st, End v) t = None"

fun parse_tokens :: "frame list \<times> expect \<Rightarrow> token list \<Rightarrow> (frame list \<times> expect) option" where
  "parse_tokens s [] = Some s"
| "parse_tokens s (t # ts) =
     (case parse_step s t of None \<Rightarrow> None | Some s' \<Rightarrow> parse_tokens s' ts)"

definition JSON_parse :: "string \<Rightarrow> thrown + wide_string json" where
  "JSON_parse text =
     (case tokenize Idle text of
        None \<Rightarrow> Inl (Error ''SyntaxError'')
      | Some ts \<Rightarrow>
          (case parse_tokens ([], Value) ts of
             Some ([], End v) \<Rightarrow> Inr v
           | _ \<Rightarrow> Inl (Error ''SyntaxError'')))"

subsection \<open>The completion service\<close>

text \<open>
  The OpenAI client is external. One call of \<^verbatim>\<open>openai.chat.completions.create\<close> either
  rejects with a thrown value or resolves to a completion. The handler reads
  \<^verbatim>\<open>resp.choices[0]?.message?.content || ""\<close> and nothing else of it.
\<close>

record chat_message =
  content :: "string option"

record chat_choice =
  message :: "chat_message option"

record chat_completion =
  choices :: "chat_choice list"

record completion_request =
  model :: string
  messages :: "(string \<times> string) list"
  temperature :: rat

type_synonym openai_client = "completion_request \<Rightarrow> thrown + chat_completion"

text \<open>
  A call is recorded in the list of requests sent so far, so that a theorem can say
  which calls a run makes and in which order.
\<close>

definition user_request :: "string \<Rightarrow> rat \<Rightarrow> completion_request" where
  "user_request prompt t =
     \<lparr>model = ''gpt-4o-mini'', messages = [(''user'', prompt)], temperature = t\<rparr>"

definition chat_create ::
  "openai_client \<Rightarrow> string \<Rightarrow> rat \<Rightarrow> completion_request list
   \<Rightarrow> (thrown + chat_completion) \<times> completion_request list" where
  "chat_create openai prompt t sent =
     (let req = user_request prompt t in (openai req, sent @ [req]))"

definition first_content :: "chat_completion \<Rightarrow> string" where
  "first_content resp =
     (case choices resp of
        [] \<Rightarrow> []
      | c # _ \<Rightarrow>
          (case message c of
             None \<Rightarrow> []
           | Some m \<Rightarrow> (case content m of None \<Rightarrow> [] | Some s \<Rightarrow> s)))"

subsection \<open>The four prompts\<close>

text \<open>
  Each prompt is a template literal with the resume text and the job description
  interpolated, then trimmed. The customization and specific-changes prompts are
  \<^verbatim>\<open>null\<close> when the job description trims to the empty string; their template
  literals are \<open>customizeText\<close> and \<open>specificChangesText\<close>.
\<close>

definition analysisPrompt :: "string \<Rightarrow> string \<Rightarrow> string" where
  \<open>analysisPrompt resumeText jobDescription =
     trim (''\<newline>''
           @ ''You are a resume coach. Given the resume text and optional job description,\<newline>''
           @ ''return STRICT JSON with keys: strengths, improvements, tailoring (arrays of strings).\<newline>''
           @ ''No prose. Example:\<newline>''
           @ ''{\<newline>''
           @ ''  "strengths": ["..."],\<newline>''
           @ ''  "improvements": ["..."],\<newline>''
           @ ''  "tailoring": ["..."]\<newline>''
           @ ''}\<newline>''
           @ ''\<newline>''
           @ ''Resume:\<newline>''
           @ resumeText
           @ ''\<newline>''
           @ ''\<newline>''
           @ ''Job description (optional):\<newline>''
           @ jobDescription
           @ ''\<newline>'')\<close>

definition customizeText :: "string \<Rightarrow> string \<Rightarrow> string" where
  \<open>customizeText resumeText jobDescription =
     trim (''\<newline>''
           @ ''You are a professional resume writer. Customize the following resume to match the job description provided.\<newline>''
           @ ''Rewrite the resume to highlight relevant skills, experiences, and achievements that align with the job requirements.\<newline>''
           @ ''\<newline>''
           @ ''IMPORTANT STYLE GUIDELINES:\<newline>''
           @ ''- Write in natural, human language that flows smoothly when read aloud\<newline>''
           @ ''- Use conversational yet professional tone - avoid robotic or overly formal language\<newline>''
           @ ''- Make descriptions sound authentic and engaging, as if a person is speaking about their experience\<newline>''
           @ ''- Use active voice and clear, concise sentences\<newline>''
           @ ''- Ensure the text reads naturally when spoken out loud\<newline>''
           @ ''- Keep the same format and structure, but tailor the content, keywords, and emphasis to match the job description\<newline>''
           @ ''\<newline>''
           @ ''Original Resume:\<newline>''
           @ resumeText
           @ ''\<newline>''
           @ ''\<newline>''
           @ ''Job Description:\<newline>''
           @ jobDescription
           @ ''\<newline>''
           @ ''\<newline>''
           @ ''Return ONLY the customized resume text. Do not include any explanations or additional text.\<newline>'')\<close>

definition customizePrompt :: "string \<Rightarrow> string \<Rightarrow> string option" where
  "customizePrompt resumeText jobDescription =
     (if trim jobDescription \<noteq> [] then Some (customizeText resumeText jobDescription) else None)"

definition specificChangesText :: "string \<Rightarrow> string \<Rightarrow> string" where
  \<open>specificChangesText resumeText jobDescription =
     trim (''\<newline>''
           @ ''You are a resume editor. Analyze the resume and job description, then provide a clear, formatted list of specific places in the resume that need to be changed.\<newline>''
           @ ''\<newline>''
           @ ''IMPORTANT GUIDELINES:\<newline>''
           @ ''- DO NOT suggest changes to Education sections. Education information (degrees, institutions, dates) should remain as-is unless there are critical factual errors.\<newline>''
           @ ''- Only suggest changes that are directly relevant to matching the job description requirements.\<newline>''
           @ ''- Focus on: Professional Summary, Work Experience descriptions, Skills sections, and relevant achievements.\<newline>''
           @ ''- Do not suggest adding dates or years to education entries if they are not already present.\<newline>''
           @ ''\<newline>''
           @ ''For each change, specify:\<newline>''
           @ ''1. The section/section name (e.g., "Professional Summary", "Work Experience - Software Engineer at Company X", "Skills Section")\<newline>''
           @ ''2. What currently exists (the current text or description)\<newline>''
           @ ''3. What it should be changed to (the suggested change)\<newline>''
           @ ''\<newline>''
           @ ''Format your response as clear, readable text with sections. Use this format:\<newline>''
           @ ''\<newline>''
           @ ''SECTION: [Section Name]\<newline>''
           @ ''CURRENT: [What currently exists]\<newline>''
           @ ''CHANGE TO: [What it should be changed to]\<newline>''
           @ ''\<newline>''
           @ ''[Repeat for each change]\<newline>''
           @ ''\<newline>''
           @ ''Original Resume:\<newline>''
           @ resumeText
           @ ''\<newline>''
           @ ''\<newline>''
           @ ''Job Description:\<newline>''
           @ jobDescription
           @ ''\<newline>''
           @ ''\<newline>''
           @ ''Return ONLY the list of specific changes in the format above. Be specific about locations and exact text changes. Remember: DO NOT suggest changes to Education sections.\<newline>'')\<close>

definition specificChangesPrompt :: "string \<Rightarrow> string \<Rightarrow> string option" where
  "specificChangesPrompt resumeText jobDescription =
     (if trim jobDescription \<noteq> []
      then Some (specificChangesText resumeText jobDescription) else None)"

definition coverLetterPrompt :: "string \<Rightarrow> string \<Rightarrow> string" where
  \<open>coverLetterPrompt resumeText jobDescription =
     trim (''\<newline>''
           @ ''You are a professional cover letter writer. Write a compelling, personalized cover letter based on the resume and job description provided.\<newline>''
           @ ''\<newline>''
           @ ''EXACT FORMATTING STRUCTURE (follow this order exactly):\<newline>''
           @ ''\<newline>''
           @ ''1. HEADER SECTION (centered):\<newline>''
           @ ''   - Candidate's full name (centered, bold/large)\<newline>''
           @ ''   - Job title/position (centered, below name, smaller font)\<newline>''
           @ ''   - Blank line\<newline>''
           @ ''\<newline>''
           @ ''2. CONTACT INFORMATION (two columns):\<newline>''
           @ ''   - Left side: Phone number, Email address (each on separate line)\<newline>''
           @ ''   - Right side: LinkedIn profile URL (if available in resume)\<newline>''
           @ ''   - Blank line\<newline>''
           @ ''\<newline>''
           @ ''3. DIVIDER LINE:\<newline>''
           @ ''   - Horizontal line using dashes or equal signs (at least 30 characters)\<newline>''
           @ ''   - Blank line\<newline>''
           @ ''\<newline>''
           @ ''4. TITLE:\<newline>''
           @ ''   - "COVER LETTER" (centered, uppercase, can be in blue/colored if specified)\<newline>''
           @ ''   - Blank line\<newline>''
           @ ''\<newline>''
           @ ''5. DATE:\<newline>''
           @ ''   - "Date: [Current Date]" (left-aligned, use format: Month Day, Year, e.g., "Date: November 7, 2025")\<newline>''
           @ ''   - Blank line\<newline>''
           @ ''\<newline>''
           @ ''6. SALUTATION:\<newline>''
           @ ''   - "Dear Hiring Manager," (left-aligned)\<newline>''
           @ ''   - Blank line\<newline>''
           @ ''\<newline>''
           @ ''7. BODY (4-5 paragraphs):\<newline>''
           @ ''   - Each paragraph should be left-aligned\<newline>''
           @ ''   - Separate paragraphs with blank lines\<newline>''
           @ ''   - First paragraph: Express excitement and introduce yourself\<newline>''
           @ ''   - Middle paragraphs: Highlight relevant experience, skills, and achievements from resume\<newline>''
           @ ''   - Last paragraph: Show enthusiasm for the role and company\<newline>''
           @ ''   - Blank line between paragraphs\<newline>''
           @ ''\<newline>''
           @ ''8. CLOSING:\<newline>''
           @ ''   - "Sincerely," (left-aligned)\<newline>''
           @ ''   - Blank line\<newline>''
           @ ''   - Candidate's full name (left-aligned, below Sincerely)\<newline>''
           @ ''\<newline>''
           @ ''CONTENT GUIDELINES:\<newline>''
           @ ''- Extract candidate's name, job title, phone, email, and LinkedIn from the resume\<newline>''
           @ ''- Use actual information from the resume - do not use placeholders\<newline>''
           @ ''- Address how the candidate's skills and experience align with the job requirements\<newline>''
           @ ''- Highlight specific achievements and experiences from the resume that are relevant to the job\<newline>''
           @ ''- Show enthusiasm for the position and company\<newline>''
           @ ''- Use a professional but engaging tone\<newline>''
           @ ''- Write 4-5 well-structured paragraphs\<newline>''
           @ ''\<newline>''
           @ ''Resume:\<newline>''
           @ resumeText
           @ ''\<newline>''
           @ ''\<newline>''
           @ ''Job Description:\<newline>''
           @ jobDescription
           @ ''\<newline>''
           @ ''\<newline>''
           @ ''Return ONLY the formatted cover letter text following the exact structure above. Use proper line breaks and spacing. Do not include any explanations or additional text.\<newline>'')\<close>

subsection \<open>The analysis object\<close>

text \<open>
  The three arrays are declared \<^verbatim>\<open>string[]\<close>, but the handler stores whatever array the
  parsed response holds without looking at its elements, so the model keeps them as
  lists of JSON values, over the strings of the JSON they come from: those of
  \<^verbatim>\<open>JSON.parse\<close> in the handler, those of the fetched body in the component. The three
  optional fields are texts.
\<close>

record 's Analysis =
  strengths :: "'s json list"
  improvements :: "'s json list"
  tailoring :: "'s json list"
  customizedResume :: "string option"
  specificChanges :: "string option"
  coverLetter :: "string option"

definition default_strengths :: "wide_string json list" where
  "default_strengths =
     [JString (wide ''Solid technical foundation communicated clearly.''),
      JString (wide ''Highlights relevant experience and impact-driven bullet points.'')]"

definition default_improvements :: "wide_string json list" where
  "default_improvements =
     [JString (wide ''Quantify achievements (e.g., impact, metrics) wherever possible.''),
      JString (wide ''Add a short summary that aligns with the target role's keywords.'')]"

definition default_tailoring :: "wide_string json list" where
  "default_tailoring =
     [JString (wide ''Mirror key phrases from the job description in the skills section.''),
      JString (wide ''Mention recent projects that demonstrate the required tools or domains.'')]"

definition default_analysis :: "wide_string Analysis" where
  "default_analysis =
     \<lparr>strengths = default_strengths,
      improvements = default_improvements,
      tailoring = default_tailoring,
      customizedResume = None,
      specificChanges = None,
      coverLetter = None\<rparr>"

subsection \<open>The handler of POST /api/analyze-resume\<close>

text \<open>
  Locating and parsing the JSON of the analysis response. The three assignments follow
  \<^verbatim>\<open>JSON.parse\<close> inside one \<^verbatim>\<open>try\<close>: a throw leaves the later fields as they were.
\<close>

definition read_analysis ::
  "string \<Rightarrow> wide_string Analysis \<Rightarrow> wide_string Analysis" where
  \<open>read_analysis analysisText analysis =
     (let jsonStart = indexOf analysisText (CHR ''{'');
          jsonEnd = lastIndexOf analysisText (CHR ''}'')
      in if jsonStart \<noteq> -1 \<and> jsonEnd \<noteq> -1 \<and> jsonEnd > jsonStart
         then (case JSON_parse (slice analysisText jsonStart (jsonEnd + 1)) of
                 Inl parseErr \<Rightarrow> analysis
               | Inr parsed \<Rightarrow>
                   (case get_prop parsed (wide ''strengths'') of
                      Inl parseErr \<Rightarrow> analysis
                    | Inr s \<Rightarrow>
                        (let analysis1 = analysis\<lparr>strengths := array_or_empty s\<rparr> in
                         case get_prop parsed (wide ''improvements'') of
                           Inl parseErr \<Rightarrow> analysis1
                         | Inr i \<Rightarrow>
                             (let analysis2 = analysis1\<lparr>improvements := array_or_empty i\<rparr> in
                              case get_prop parsed (wide ''tailoring'') of
                                Inl parseErr \<Rightarrow> analysis2
                              | Inr t \<Rightarrow> analysis2\<lparr>tailoring := array_or_empty t\<rparr>))))
         else analysis)\<close>

text \<open>The three optional tasks, each inside its own \<^verbatim>\<open>try\<close>/\<^verbatim>\<open>catch\<close>.\<close>

definition customize_block ::
  "openai_client \<Rightarrow> string option \<Rightarrow> wide_string Analysis \<times> completion_request list
   \<Rightarrow> wide_string Analysis \<times> completion_request list" where
  "customize_block openai prompt = (\<lambda>(analysis, sent).
     case prompt of
       None \<Rightarrow> (analysis, sent)
     | Some p \<Rightarrow>
         (case chat_create openai p (7 / 10) sent of
            (Inl customizeErr, sent') \<Rightarrow> (analysis, sent')
          | (Inr customizeResp, sent') \<Rightarrow>
              (let text = first_content customizeResp
               in if trim text \<noteq> []
                  then (analysis\<lparr>customizedResume := Some (trim text)\<rparr>, sent')
                  else (analysis, sent'))))"

definition changes_block ::
  "openai_client \<Rightarrow> string option \<Rightarrow> wide_string Analysis \<times> completion_request list
   \<Rightarrow> wide_string Analysis \<times> completion_request list" where
  "changes_block openai prompt = (\<lambda>(analysis, sent).
     case prompt of
       None \<Rightarrow> (analysis, sent)
     | Some p \<Rightarrow>
         (case chat_create openai p (7 / 10) sent of
            (Inl changesErr, sent') \<Rightarrow> (analysis, sent')
          | (Inr changesResp, sent') \<Rightarrow>
              (let text = first_content changesResp
               in if trim text \<noteq> []
                  then (analysis\<lparr>specificChanges := Some (trim text)\<rparr>, sent')
                  else (analysis, sent'))))"

definition empty_cover_letter :: string where
  "empty_cover_letter =
     ''Cover letter generation returned an empty response. Please try again.''"

definition failed_cover_letter :: "thrown \<Rightarrow> string" where
  "failed_cover_letter coverLetterErr =
     ''Cover letter generation failed: ''
     @ (case coverLetterErr of Error m \<Rightarrow> m | NonError \<Rightarrow> ''Unknown error'')
     @ ''. Please try again.''"

definition cover_letter_block ::
  "openai_client \<Rightarrow> string \<Rightarrow> string \<Rightarrow> wide_string Analysis \<times> completion_request list
   \<Rightarrow> wide_string Analysis \<times> completion_request list" where
  "cover_letter_block openai resumeText jobDescription = (\<lambda>(analysis, sent).
     if trim jobDescription \<noteq> []
     then (case chat_create openai (coverLetterPrompt resumeText jobDescription) (8 / 10) sent of
             (Inl coverLetterErr, sent') \<Rightarrow>
               (analysis\<lparr>coverLetter := Some (failed_cover_letter coverLetterErr)\<rparr>, sent')
           | (Inr coverLetterResp, sent') \<Rightarrow>
               (let text = first_content coverLetterResp
                in if trim text \<noteq> []
                   then (analysis\<lparr>coverLetter := Some (trim text)\<rparr>, sent')
                   else (analysis\<lparr>coverLetter := Some empty_cover_letter\<rparr>, sent')))
     else (analysis, sent))"

text \<open>
  The body of the inner \<^verbatim>\<open>try\<close>. The analysis call is not wrapped on its own: when it
  rejects, control leaves the whole block for the outer \<^verbatim>\<open>catch\<close>, which logs
  "returning fallback analysis", and the object built so far is sent.
\<close>

definition run_tasks ::
  "openai_client \<Rightarrow> string \<Rightarrow> string \<Rightarrow> wide_string Analysis \<times> completion_request list" where
  "run_tasks openai resumeText jobDescription =
     (case chat_create openai (analysisPrompt resumeText jobDescription) (7 / 10) [] of
        (Inl err, sent) \<Rightarrow> (default_analysis, sent)
      | (Inr analysisResp, sent) \<Rightarrow>
          cover_letter_block openai resumeText jobDescription
            (changes_block openai (specificChangesPrompt resumeText jobDescription)
               (customize_block openai (customizePrompt resumeText jobDescription)
                  (read_analysis (first_content analysisResp) default_analysis, sent))))"

text \<open>
  The handler. The request body is cast to
  \<^verbatim>\<open>{ resumeText?: string; jobDescription?: string }\<close>; a missing job description
  defaults to the empty string. Under that type nothing outside the inner \<^verbatim>\<open>try\<close>
  throws, so the status 500 of the outermost \<^verbatim>\<open>catch\<close> has no branch here.
\<close>

datatype api_response = Failure nat string | Success "wide_string Analysis"

definition analyze_resume ::
  "openai_client option \<Rightarrow> string option \<Rightarrow> string option
   \<Rightarrow> api_response \<times> completion_request list" where
  "analyze_resume openai resumeText jobDescription =
     (case openai of
        None \<Rightarrow> (Failure 503 ''OpenAI API key not configured'', [])
      | Some client \<Rightarrow>
          (case resumeText of
             None \<Rightarrow> (Failure 400 ''resumeText is required'', [])
           | Some r \<Rightarrow>
               if trim r = [] then (Failure 400 ''resumeText is required'', [])
               else (let (analysis, sent) =
                           run_tasks client r (case jobDescription of None \<Rightarrow> [] | Some j \<Rightarrow> j)
                     in (Success analysis, sent))))"

subsection \<open>The ResumeAnalyzer component: state and collaborators\<close>

text \<open>
  The text of a message is a text of the model or, where the code hands a JSON value
  \<open>v\<close> that is not a string to \<^verbatim>\<open>new Error\<close>, the platform's \<^verbatim>\<open>String(v)\<close>, which
  the model names and does not spell out.
\<close>

datatype message_text = Text string | StringOf "string json"

text \<open>
  A toast has a title, a description and a variant, which is either the default or
  \<^verbatim>\<open>"destructive"\<close>. The title of the toast for a generated cover letter ends in
  three characters after "Generated! ", the first of them a code unit above 255; the
  string model leaves the three out.
\<close>

record toast_message =
  title :: string
  description :: message_text
  destructive :: bool

text \<open>
  An uploaded \<^verbatim>\<open>File\<close>: its name, media type and size, and what
  \<^verbatim>\<open>file.arrayBuffer()\<close> settles to.
\<close>

record uploaded_file =
  file_name :: string
  file_type :: string
  file_size :: nat
  arrayBuffer :: "thrown + nat list"

text \<open>
  A decoded PDF is the list of its pages in page order. A page holds what
  \<^verbatim>\<open>pdf.getPage(i)\<close> settles to, and inside it what \<^verbatim>\<open>page.getTextContent()\<close>
  settles to: the items of the page. A text item has a \<^verbatim>\<open>str\<close>; a marked-content item
  has none.
\<close>

datatype text_item = TextItem string | TextMarkedContent

type_synonym pdf_page = "thrown + text_item list"

type_synonym pdf_document = "(thrown + pdf_page) list"

definition numPages :: "pdf_document \<Rightarrow> nat" where
  "numPages pdf = length pdf"

definition getPage :: "pdf_document \<Rightarrow> nat \<Rightarrow> thrown + pdf_page" where
  "getPage pdf i =
     (if 1 \<le> i \<and> i \<le> length pdf then pdf ! (i - 1) else Inl (Error ''Invalid page request.''))"

type_synonym pdf_decoder = "nat list \<Rightarrow> thrown + pdf_document"

text \<open>
  One \<^verbatim>\<open>fetch\<close> either rejects or resolves to a response, of which the handler reads
  \<^verbatim>\<open>ok\<close>, \<^verbatim>\<open>status\<close> and what \<^verbatim>\<open>resp.json()\<close> settles to. The request body is kept
  as the object handed to \<^verbatim>\<open>JSON.stringify\<close>.
\<close>

record fetch_request =
  url :: string
  http_method :: string
  headers :: "(string \<times> string) list"
  body :: "string json"

record fetch_response =
  ok :: bool
  status :: nat
  json :: "thrown + string json"

type_synonym fetcher = "fetch_request \<Rightarrow> thrown + fetch_response"

text \<open>
  The state of the component, followed by three logs of what the handlers did to the
  outside: the toasts shown, the buffers handed to the PDF decoder, and the requests
  fetched. The effect hook that picks the active tab after the analysis has changed is
  not part of a handler and is not modelled.
\<close>

record component =
  resumeText :: string
  jobDescription :: string
  isAnalyzing :: bool
  isGeneratingCoverLetter :: bool
  analysis :: "string Analysis option"
  uploadedFile :: "uploaded_file option"
  isDragging :: bool
  isProcessingPDF :: bool
  activeTab :: string
  toasts :: "toast_message list"
  decoded :: "nat list list"
  fetched :: "fetch_request list"

definition toast :: "toast_message \<Rightarrow> component \<Rightarrow> component" where
  "toast t st = st\<lparr>toasts := toasts st @ [t]\<rparr>"

text \<open>\<^verbatim>\<open>err instanceof Error ? err.message : fallback\<close>.\<close>

fun message_or :: "thrown \<Rightarrow> string \<Rightarrow> string" where
  "message_or (Error m) fallback = m"
| "message_or NonError fallback = fallback"

subsection \<open>handleFileUpload\<close>

definition item_str :: "text_item \<Rightarrow> string" where
  "item_str item = (case item of TextItem s \<Rightarrow> s | TextMarkedContent \<Rightarrow> [])"

text \<open>The loop over the pages, from page \<open>i\<close> on, with the text extracted so far.\<close>

function page_loop :: "pdf_document \<Rightarrow> nat \<Rightarrow> string \<Rightarrow> thrown + string" where
  "page_loop pdf i extractedText =
     (if i \<le> numPages pdf
      then (case getPage pdf i of
              Inl e \<Rightarrow> Inl e
            | Inr page \<Rightarrow>
                (case page of
                   Inl e \<Rightarrow> Inl e
                 | Inr items \<Rightarrow>
                     page_loop pdf (i + 1)
                       (extractedText @ join (map item_str items) '' '' @ ''\<newline>'')))
      else Inr extractedText)"
  by pat_completeness auto
termination
  by (relation "measure (\<lambda>(pdf, i, extractedText). Suc (numPages pdf) - i)") auto

declare page_loop.simps [simp del]

text \<open>The body of the \<^verbatim>\<open>try\<close>: read the file, decode it, walk the pages.\<close>

definition read_pdf ::
  "pdf_decoder \<Rightarrow> uploaded_file \<Rightarrow> component \<Rightarrow> (thrown + string) \<times> component" where
  "read_pdf getDocument file st =
     (case arrayBuffer file of
        Inl e \<Rightarrow> (Inl e, st)
      | Inr buffer \<Rightarrow>
          (let st' = st\<lparr>decoded := decoded st @ [buffer]\<rparr>
           in case getDocument buffer of
                Inl e \<Rightarrow> (Inl e, st')
              | Inr pdf \<Rightarrow> (page_loop pdf 1 [], st')))"

definition invalid_type_toast :: toast_message where
  "invalid_type_toast =
     \<lparr>title = ''Invalid file type'', description = Text ''Please upload a PDF file.'',
      destructive = True\<rparr>"

definition too_large_toast :: toast_message where
  "too_large_toast =
     \<lparr>title = ''File too large'',
      description = Text ''Please upload a file smaller than 5MB.'',
      destructive = True\<rparr>"

definition handleFileUpload :: "pdf_decoder \<Rightarrow> uploaded_file \<Rightarrow> component \<Rightarrow> component" where
  "handleFileUpload getDocument file st =
     (if file_type file \<noteq> ''application/pdf'' \<and> \<not> endsWith (toLowerCase (file_name file)) ''.pdf''
      then toast invalid_type_toast st
      else if file_size file > 5 * 1024 * 1024
      then toast too_large_toast st
      else (case read_pdf getDocument file (st\<lparr>uploadedFile := Some file, isProcessingPDF := True\<rparr>) of
              (Inr extractedText, st') \<Rightarrow>
                (toast \<lparr>title = ''PDF uploaded successfully'',
                        description = Text (file_name file @ '' has been uploaded and processed.''),
                        destructive = False\<rparr>
                   (st'\<lparr>resumeText := trim extractedText\<rparr>))
                \<lparr>isProcessingPDF := False\<rparr>
            | (Inl error, st') \<Rightarrow>
                (toast \<lparr>title = ''Error reading PDF'',
                        description =
                          Text (''Failed to extract text from the PDF: ''
                                @ message_or error ''Unknown error occurred''
                                @ ''. Please try again.''),
                        destructive = True\<rparr> st')
                \<lparr>uploadedFile := None, resumeText := [], isProcessingPDF := False\<rparr>))"

subsection \<open>handleGenerateCoverLetter\<close>

text \<open>\<^verbatim>\<open>`${n}`\<close> for a non-negative integer.\<close>

fun decimal :: "nat \<Rightarrow> string" where
  "decimal n =
     (if n < 10 then [char_of (48 + n)]
      else decimal (n div 10) @ [char_of (48 + n mod 10)])"

definition analyze_request :: "string \<Rightarrow> string \<Rightarrow> fetch_request" where
  "analyze_request r j =
     \<lparr>url = ''/api/analyze-resume'', http_method = ''POST'',
      headers = [(''Content-Type'', ''application/json'')],
      body = JObject [(''resumeText'', JString r), (''jobDescription'', JString (trim j))]\<rparr>"

text \<open>
  Truthiness of a JSON value. A number is falsy when the double it denotes is zero:
  all its digits are zero, or its magnitude is at most 2 to the power -1075, half the
  least positive double, and so rounds to zero.
  The functions below read a lexeme that \<open>valid_number\<close> accepts.
\<close>

fun decimal_value :: "int \<Rightarrow> string \<Rightarrow> int" where
  "decimal_value acc [] = acc"
| "decimal_value acc (c # cs) = decimal_value (10 * acc + (of_char c - 48)) cs"

definition signed_value :: "string \<Rightarrow> int" where
  "signed_value s =
     (case s of
        [] \<Rightarrow> 0
      | c # r \<Rightarrow>
          if c = CHR ''-'' then - decimal_value 0 r
          else if c = CHR ''+'' then decimal_value 0 r
          else decimal_value 0 s)"

definition number_is_zero :: "string \<Rightarrow> bool" where
  "number_is_zero lexeme =
     (let unsigned = (case lexeme of [] \<Rightarrow> [] | c # r \<Rightarrow> if c = CHR ''-'' then r else lexeme);
          mantissa = takeWhile (\<lambda>c. c \<noteq> CHR ''e'' \<and> c \<noteq> CHR ''E'') unsigned;
          exponent = drop (Suc (length mantissa)) unsigned;
          whole = takeWhile is_digit mantissa;
          fraction = drop (Suc (length whole)) mantissa;
          digits = decimal_value 0 (whole @ fraction);
          e = signed_value exponent - int (length fraction)
      in digits = 0 \<or> (e < 0 \<and> digits * 2 ^ 1075 \<le> 10 ^ nat (- e)))"

fun truthy :: "'a list json \<Rightarrow> bool" where
  "truthy JNull = False"
| "truthy (JBool b) = b"
| "truthy (JNumber lexeme) = (\<not> number_is_zero lexeme)"
| "truthy (JString s) = (s \<noteq> [])"
| "truthy (JArray xs) = True"
| "truthy (JObject kvs) = True"

text \<open>The message \<^verbatim>\<open>new Error(v)\<close> takes from a JSON value \<open>v\<close>.\<close>

fun error_text :: "string json \<Rightarrow> message_text" where
  "error_text (JString s) = Text s"
| "error_text v = StringOf v"

text \<open>
  The message thrown for a response that is not OK: \<^verbatim>\<open>Server error: <status>\<close>, replaced
  by the \<^verbatim>\<open>error\<close> member of the body when that member is truthy. A body that does not
  parse, \<^verbatim>\<open>null\<close> (through \<^verbatim>\<open>err?.error\<close>) and a body without a truthy member leave
  the default.
\<close>

definition server_error_message :: "fetch_response \<Rightarrow> message_text" where
  "server_error_message resp =
     (let message = Text (''Server error: '' @ decimal (status resp))
      in case json resp of
           Inl e \<Rightarrow> message
         | Inr maybeErr \<Rightarrow>
             (case get_prop maybeErr ''error'' of
                Inr (Some v) \<Rightarrow> if truthy v then error_text v else message
              | _ \<Rightarrow> message))"

definition not_generated_message :: string where
  "not_generated_message =
     ''Cover letter was not generated. The server response did not include a cover letter. ''
     @ ''Please check the server logs or try again.''"

text \<open>
  What the \<^verbatim>\<open>catch\<close> of the handler receives: a value thrown by the platform (a
  rejected \<^verbatim>\<open>fetch\<close> or \<^verbatim>\<open>resp.json()\<close>, a TypeError), or an error the body made
  with \<^verbatim>\<open>new Error\<close>, which carries the text of its message.
\<close>

datatype caught = Thrown thrown | NewError message_text

text \<open>\<^verbatim>\<open>err instanceof Error ? err.message : "Please try again."\<close> in that \<^verbatim>\<open>catch\<close>.\<close>

fun caught_message :: "caught \<Rightarrow> message_text" where
  "caught_message (Thrown e) = Text (message_or e ''Please try again.'')"
| "caught_message (NewError m) = m"

text \<open>
  The body of the \<^verbatim>\<open>try\<close> up to the state update: it yields the parsed response and
  the text of its cover letter, or what was thrown on the way.
\<close>

definition request_cover_letter ::
  "fetcher \<Rightarrow> component \<Rightarrow> (caught + string json \<times> string) \<times> component" where
  "request_cover_letter fetch st =
     (let req = analyze_request (resumeText st) (jobDescription st);
          st' = st\<lparr>isGeneratingCoverLetter := True, fetched := fetched st @ [req]\<rparr>
      in case fetch req of
           Inl e \<Rightarrow> (Inl (Thrown e), st')
         | Inr resp \<Rightarrow>
             if \<not> ok resp then (Inl (NewError (server_error_message resp)), st')
             else (case json resp of
                     Inl e \<Rightarrow> (Inl (Thrown e), st')
                   | Inr raw \<Rightarrow>
                       (case get_prop raw ''coverLetter'' of
                          Inl e \<Rightarrow> (Inl (Thrown e), st')
                        | Inr (Some (JString coverLetterText)) \<Rightarrow>
                            if coverLetterText = []
                            then (Inl (NewError (Text not_generated_message)), st')
                            else if includes_str coverLetterText ''generation failed''
                                    \<or> includes_str coverLetterText ''empty response''
                            then (Inl (NewError (Text coverLetterText)), st')
                            else (Inr (raw, coverLetterText), st')
                        | Inr _ \<Rightarrow> (Inl (NewError (Text not_generated_message)), st'))))"

text \<open>
  The updater passed to \<^verbatim>\<open>setAnalysis\<close>: the previous analysis, or else one built from
  the arrays of the response, with the cover letter replaced. It runs on a response
  whose \<^verbatim>\<open>coverLetter\<close> was read, so its own reads do not throw.
\<close>

definition member :: "'s json \<Rightarrow> 's \<Rightarrow> 's json option" where
  "member v k = (case get_prop v k of Inl e \<Rightarrow> None | Inr x \<Rightarrow> x)"

definition merge_cover_letter ::
  "string json \<Rightarrow> string \<Rightarrow> string Analysis option \<Rightarrow> string Analysis" where
  "merge_cover_letter rawAnalysis coverLetterText prev =
     (case prev of
        Some p \<Rightarrow> p
      | None \<Rightarrow>
          \<lparr>strengths = array_or_empty (member rawAnalysis ''strengths''),
           improvements = array_or_empty (member rawAnalysis ''improvements''),
           tailoring = array_or_empty (member rawAnalysis ''tailoring''),
           customizedResume = None,
           specificChanges = None,
           coverLetter = None\<rparr>)
     \<lparr>coverLetter := Some coverLetterText\<rparr>"

definition resume_missing_toast :: toast_message where
  "resume_missing_toast =
     \<lparr>title = ''Error'', description = Text ''Please upload your resume PDF first.'',
      destructive = True\<rparr>"

definition job_missing_toast :: toast_message where
  "job_missing_toast =
     \<lparr>title = ''Error'',
      description = Text ''Please provide a job description to generate a cover letter.'',
      destructive = True\<rparr>"

definition handleGenerateCoverLetter :: "fetcher \<Rightarrow> component \<Rightarrow> component" where
  "handleGenerateCoverLetter fetch st =
     (if trim (resumeText st) = [] then toast resume_missing_toast st
      else if trim (jobDescription st) = [] then toast job_missing_toast st
      else (case request_cover_letter fetch st of
              (Inr (rawAnalysis, coverLetterText), st') \<Rightarrow>
                (toast \<lparr>title = ''Cover Letter Generated! '',
                        description = Text ''Your personalized cover letter is ready.'',
                        destructive = False\<rparr>
                   (st'\<lparr>analysis := Some (merge_cover_letter rawAnalysis coverLetterText (analysis st')),
                        activeTab := ''coverLetter''\<rparr>))
                \<lparr>isGeneratingCoverLetter := False\<rparr>
            | (Inl err, st') \<Rightarrow>
                (toast \<lparr>title = ''Cover letter generation failed'',
                        description = caught_message err,
                        destructive = True\<rparr> st')
                \<lparr>isGeneratingCoverLetter := False\<rparr>))"

subsection \<open>Test doubles\<close>

text \<open>
  Concrete collaborators on which the theorems below are exercised. The stubbed
  completion service tells the four tasks apart by the opening words of the prompt and
  settles each call as it is told to.
\<close>

definition completion :: "string \<Rightarrow> chat_completion" where
  "completion s = \<lparr>choices = [\<lparr>message = Some \<lparr>content = Some s\<rparr>\<rparr>]\<rparr>"

definition stub_client ::
  "thrown + chat_completion \<Rightarrow> thrown + chat_completion \<Rightarrow> thrown + chat_completion
   \<Rightarrow> thrown + chat_completion \<Rightarrow> openai_client" where
  "stub_client analysisOutcome customizeOutcome changesOutcome coverLetterOutcome req =
     (let prompt = concat (map snd (messages req))
      in if prefix ''You are a resume coach'' prompt then analysisOutcome
         else if prefix ''You are a professional resume writer'' prompt then customizeOutcome
         else if prefix ''You are a resume editor'' prompt then changesOutcome
         else coverLetterOutcome)"

text \<open>The service is down from the first call on; the later outcomes are never asked for.\<close>

definition analysis_down :: openai_client where
  "analysis_down =
     stub_client (Inl (Error ''service down'')) (Inr (completion ''Resume''))
       (Inr (completion ''Changes'')) (Inr (completion ''Letter''))"

text \<open>The analysis reply holds a brace pair around text that is not JSON.\<close>

definition malformed_reply :: openai_client where
  \<open>malformed_reply =
     stub_client (Inr (completion ''Here you go: {"strengths": ["a",]}'')) (Inr (completion ''Resume''))
       (Inr (completion ''Changes'')) (Inr (completion ''Letter''))\<close>

text \<open>The analysis reply is JSON whose \<^verbatim>\<open>strengths\<close> is an array of numbers.\<close>

definition numbers_reply :: openai_client where
  \<open>numbers_reply =
     stub_client (Inr (completion ''{"strengths":[1]}'')) (Inr (completion ''Resume''))
       (Inr (completion ''Changes'')) (Inr (completion ''Letter''))\<close>

text \<open>The analysis reply wraps a well-formed object in prose.\<close>

definition noisy_reply :: openai_client where
  \<open>noisy_reply =
     stub_client
       (Inr (completion
          ''noise {"strengths":["a"],"improvements":[],"tailoring":["b","c"]} trailing''))
       (Inr (completion ''Resume'')) (Inr (completion ''Changes'')) (Inr (completion ''Letter''))\<close>

text \<open>
  The analysis reply is the ASCII text \<^verbatim>\<open>{"strengths":["\u2022 a"]}\<close>, whose string holds
  an escape above 00FF.
\<close>

definition bullet_text :: string where
  \<open>bullet_text = ''{"strengths":["'' @ [CHR 0x5C] @ ''u2022 a"]}''\<close>

definition escaped_reply :: openai_client where
  "escaped_reply =
     stub_client (Inr (completion bullet_text)) (Inr (completion ''Resume''))
       (Inr (completion ''Changes'')) (Inr (completion ''Letter''))"

text \<open>Only the customization call fails; the specific-changes call returns no content.\<close>

definition customize_down_changes_blank :: openai_client where
  "customize_down_changes_blank =
     stub_client (Inr (completion ''no json'')) (Inl (Error ''boom''))
       (Inr (completion [])) (Inr (completion ''Letter''))"

text \<open>Only the customization call fails; the later calls return text.\<close>

definition customize_down :: openai_client where
  "customize_down =
     stub_client (Inr (completion ''no json'')) (Inl (Error ''boom''))
       (Inr (completion '' Changes '')) (Inr (completion ''Letter''))"

text \<open>Every free-text task returns white space only.\<close>

definition blank_outputs :: openai_client where
  "blank_outputs =
     stub_client (Inr (completion ''no json'')) (Inr (completion ''  ''))
       (Inr (completion ''  '')) (Inr (completion ''  ''))"

text \<open>Only the cover-letter call fails.\<close>

definition letter_down :: openai_client where
  "letter_down =
     stub_client (Inr (completion ''no json'')) (Inr (completion ''Resume''))
       (Inr (completion ''Changes'')) (Inl (Error ''quota exceeded''))"

text \<open>
  A fresh component, a two-page resume and its decoder, and files that differ from the
  resume in name, media type or size.
\<close>

definition fresh :: component where
  "fresh =
     \<lparr>resumeText = [], jobDescription = [], isAnalyzing = False,
      isGeneratingCoverLetter = False, analysis = None, uploadedFile = None,
      isDragging = False, isProcessingPDF = False, activeTab = ''coverLetter'',
      toasts = [], decoded = [], fetched = []\<rparr>"

definition resume_pdf :: uploaded_file where
  "resume_pdf =
     \<lparr>file_name = ''resume.pdf'', file_type = ''application/pdf'', file_size = 3,
      arrayBuffer = Inr [37, 80, 68]\<rparr>"

definition two_pages :: "text_item list list" where
  "two_pages = [[TextItem ''Jane'', TextItem ''Doe''], [TextItem ''Engineer '']]"

definition resume_decoder :: pdf_decoder where
  "resume_decoder buffer = Inr (map (\<lambda>items. Inr (Inr items)) two_pages)"

definition plain_text_named_pdf :: uploaded_file where
  "plain_text_named_pdf = resume_pdf\<lparr>file_name := ''Notes.PDF'', file_type := ''text/plain''\<rparr>"

definition huge_text_file :: uploaded_file where
  "huge_text_file =
     resume_pdf\<lparr>file_name := ''notes.txt'', file_type := ''text/plain'',
                 file_size := 5 * 1024 * 1024 + 1\<rparr>"

definition huge_pdf :: uploaded_file where
  "huge_pdf = resume_pdf\<lparr>file_size := 5 * 1024 * 1024 + 1\<rparr>"

text \<open>
  A component that holds a resume, a job description and an earlier result, and four
  servers: one that answers with a cover letter, one that is not configured, one whose
  answer has no cover letter, and one whose cover letter is the failure notice.
\<close>

definition earlier_result :: "string Analysis" where
  "earlier_result =
     \<lparr>strengths = [JString ''s''], improvements = [JString ''i''], tailoring = [JString ''t''],
      customizedResume = Some ''Tailored resume'', specificChanges = Some ''SECTION: Skills'',
      coverLetter = Some ''Old letter''\<rparr>"

definition analysed :: component where
  "analysed = fresh\<lparr>resumeText := ''R'', jobDescription := ''J'', analysis := Some earlier_result\<rparr>"

definition letter_server :: fetcher where
  "letter_server req =
     Inr \<lparr>ok = True, status = 200,
          json = Inr (JObject [(''strengths'', JArray [JString ''other'']),
                               (''improvements'', JArray []),
                               (''tailoring'', JArray []),
                               (''coverLetter'', JString ''Dear Hiring Manager,'')])\<rparr>"

definition unconfigured_server :: fetcher where
  "unconfigured_server req =
     Inr \<lparr>ok = False, status = 503,
          json = Inr (JObject [(''error'', JString ''OpenAI API key not configured'')])\<rparr>"

definition letterless_server :: fetcher where
  "letterless_server req =
     Inr \<lparr>ok = True, status = 200,
          json = Inr (JObject [(''strengths'', JArray []), (''improvements'', JArray []),
                               (''tailoring'', JArray [])])\<rparr>"

definition failing_letter_server :: fetcher where
  "failing_letter_server req =
     Inr \<lparr>ok = True, status = 200,
          json = Inr (JObject [(''strengths'', JArray []), (''improvements'', JArray []),
                               (''tailoring'', JArray []),
                               (''coverLetter'',
                                JString ''Cover letter generation failed: quota exceeded. Please try again.'')])\<rparr>"

definition blank_job :: component where
  "blank_job = analysed\<lparr>jobDescription := ''  ''\<rparr>"

section \<open>Properties of the model\<close>

subsection \<open>Trimming and the openings of the prompts\<close>

lemma trim_white_Cons: "is_white_space w \<Longrightarrow> trim (w # s) = trim s"
  by (simp add: trim_def)

lemma trim_keeps_prefix:
  assumes "q \<noteq> []" and "\<not> is_white_space (hd q)" and "\<not> is_white_space (last q)"
  shows "prefix q (trim (q @ s))"
proof -
  from assms have front: "dropWhile is_white_space (q @ s) = q @ s"
    by (cases q) simp_all
  from assms have rear: "dropWhile is_white_space (rev q) = rev q"
    by (cases q rule: rev_cases) simp_all
  have "\<exists>x. dropWhile is_white_space (rev s @ rev q) = x @ rev q"
    by (simp add: dropWhile_append rear)
  then obtain x where "dropWhile is_white_space (rev s @ rev q) = x @ rev q" ..
  then have "trim (q @ s) = q @ rev x"
    by (simp add: trim_def front)
  then show ?thesis by simp
qed

lemma analysisPrompt_opening: "prefix ''You are a resume coach'' (analysisPrompt r j)"
  using trim_keeps_prefix [of "''You are a resume coach''"]
  by (simp add: analysisPrompt_def trim_white_Cons is_white_space_def)

lemma customizeText_opening: "prefix ''You are a professional resume writer'' (customizeText r j)"
  using trim_keeps_prefix [of "''You are a professional resume writer''"]
  by (simp add: customizeText_def trim_white_Cons is_white_space_def)

lemma specificChangesText_opening: "prefix ''You are a resume editor'' (specificChangesText r j)"
  using trim_keeps_prefix [of "''You are a resume editor''"]
  by (simp add: specificChangesText_def trim_white_Cons is_white_space_def)

lemma coverLetterPrompt_opening:
  "prefix ''You are a professional cover letter writer'' (coverLetterPrompt r j)"
  using trim_keeps_prefix [of "''You are a professional cover letter writer''"]
  by (simp add: coverLetterPrompt_def trim_white_Cons is_white_space_def)

lemma prefix_clash:
  assumes "prefix q p" and "\<not> prefix q' q" and "\<not> prefix q q'"
  shows "\<not> prefix q' p"
  using assms prefix_same_cases by blast

lemma stub_client_analysis [simp]:
  "stub_client a c s l (user_request (analysisPrompt r j) t) = a"
  by (simp add: stub_client_def user_request_def analysisPrompt_opening)

lemma stub_client_customize [simp]:
  "stub_client a c s l (user_request (customizeText r j) t) = c"
  using prefix_clash [OF customizeText_opening [of r j], of "''You are a resume coach''"]
  by (simp add: stub_client_def user_request_def customizeText_opening)

lemma stub_client_changes [simp]:
  "stub_client a c s l (user_request (specificChangesText r j) t) = s"
  using prefix_clash [OF specificChangesText_opening [of r j], of "''You are a resume coach''"]
    prefix_clash [OF specificChangesText_opening [of r j], of "''You are a professional resume writer''"]
  by (simp add: stub_client_def user_request_def specificChangesText_opening)

lemma stub_client_cover [simp]:
  "stub_client a c s l (user_request (coverLetterPrompt r j) t) = l"
  using prefix_clash [OF coverLetterPrompt_opening [of r j], of "''You are a resume coach''"]
    prefix_clash [OF coverLetterPrompt_opening [of r j], of "''You are a professional resume writer''"]
    prefix_clash [OF coverLetterPrompt_opening [of r j], of "''You are a resume editor''"]
  by (simp add: stub_client_def user_request_def)

subsection \<open>The optional tasks leave the arrays alone\<close>

lemma customize_block_arrays:
  "strengths (fst (customize_block openai p x)) = strengths (fst x)"
  "improvements (fst (customize_block openai p x)) = improvements (fst x)"
  "tailoring (fst (customize_block openai p x)) = tailoring (fst x)"
  by (auto simp add: customize_block_def Let_def split: option.splits sum.splits prod.splits)

lemma changes_block_arrays:
  "strengths (fst (changes_block openai p x)) = strengths (fst x)"
  "improvements (fst (changes_block openai p x)) = improvements (fst x)"
  "tailoring (fst (changes_block openai p x)) = tailoring (fst x)"
  by (auto simp add: changes_block_def Let_def split: option.splits sum.splits prod.splits)

lemma cover_letter_block_arrays:
  "strengths (fst (cover_letter_block openai r j x)) = strengths (fst x)"
  "improvements (fst (cover_letter_block openai r j x)) = improvements (fst x)"
  "tailoring (fst (cover_letter_block openai r j x)) = tailoring (fst x)"
  by (auto simp add: cover_letter_block_def Let_def split: option.splits sum.splits prod.splits)

lemma analyze_resume_runs:
  "trim r \<noteq> [] \<Longrightarrow>
   analyze_resume (Some openai) (Some r) (Some j) =
     (Success (fst (run_tasks openai r j)), snd (run_tasks openai r j))"
  by (simp add: analyze_resume_def split: prod.splits)

lemma run_tasks_arrays:
  assumes "openai (user_request (analysisPrompt r j) (7 / 10)) = Inr resp"
  shows "strengths (fst (run_tasks openai r j)) = strengths (read_analysis (first_content resp) default_analysis)"
    and "improvements (fst (run_tasks openai r j)) = improvements (read_analysis (first_content resp) default_analysis)"
    and "tailoring (fst (run_tasks openai r j)) = tailoring (read_analysis (first_content resp) default_analysis)"
  using assms
  by (simp_all add: run_tasks_def chat_create_def cover_letter_block_arrays
      changes_block_arrays customize_block_arrays)


subsection \<open>Locating the braces\<close>

lemma indexOf_lower: "-1 \<le> indexOf s c"
  by (induction s) (auto simp add: Let_def)

lemma indexOf_range: "indexOf s c \<noteq> -1 \<Longrightarrow> 0 \<le> indexOf s c \<and> indexOf s c < int (length s)"
  by (induction s) (auto simp add: Let_def split: if_splits)

lemma indexOf_absent: "indexOf s c = -1 \<longleftrightarrow> c \<notin> set s"
proof (induction s)
  case Nil
  show ?case by simp
next
  case (Cons x xs)
  from indexOf_lower [of xs c] Cons show ?case
    by (auto simp add: Let_def)
qed

lemma indexOf_nth: "indexOf s c \<noteq> -1 \<Longrightarrow> s ! nat (indexOf s c) = c"
proof (induction s)
  case Nil
  then show ?case by simp
next
  case (Cons x xs)
  show ?case
  proof (cases "x = c")
    case True
    then show ?thesis by simp
  next
    case False
    with Cons.prems have inner: "indexOf xs c \<noteq> -1"
      by (auto simp add: Let_def split: if_splits)
    with indexOf_range [of xs c] have "nat (indexOf xs c + 1) = Suc (nat (indexOf xs c))"
      by arith
    with False inner Cons.IH show ?thesis
      by (simp add: Let_def)
  qed
qed

lemma lastIndexOf_lower: "-1 \<le> lastIndexOf s c"
  by (induction s) (auto simp add: Let_def)

lemma lastIndexOf_range:
  "lastIndexOf s c \<noteq> -1 \<Longrightarrow> 0 \<le> lastIndexOf s c \<and> lastIndexOf s c < int (length s)"
  by (induction s) (auto simp add: Let_def split: if_splits)

lemma lastIndexOf_absent: "lastIndexOf s c = -1 \<longleftrightarrow> c \<notin> set s"
proof (induction s)
  case Nil
  show ?case by simp
next
  case (Cons x xs)
  from lastIndexOf_lower [of xs c] Cons show ?case
    by (auto simp add: Let_def)
qed

lemma slice_starts_with:
  assumes "indexOf s c \<noteq> -1" and "indexOf s c < lastIndexOf s d"
  shows "\<exists>rest. slice s (indexOf s c) (lastIndexOf s d + 1) = c # rest"
proof -
  define i where "i = nat (indexOf s c)"
  from assms indexOf_range [of s c] have i: "indexOf s c = int i" "i < length s"
    by (auto simp add: i_def)
  from assms i have "lastIndexOf s d \<noteq> -1" by simp
  with lastIndexOf_range [of s d] have k: "lastIndexOf s d < int (length s)" by simp
  from indexOf_nth [OF assms(1)] have "s ! i = c" by (simp add: i_def)
  with Cons_nth_drop_Suc [OF i(2)] have "drop i s = c # drop (Suc i) s"
    by simp
  moreover from assms i k have "nat (max (min (lastIndexOf s d + 1) (int (length s)) - int i) 0) = Suc (nat (lastIndexOf s d - int i))"
    by arith
  ultimately show ?thesis using i k assms
    by (simp add: slice_def Let_def)
qed

subsection \<open>A text that opens with a brace parses to an object\<close>

lemma finish_value_bottom:
  assumes "st \<noteq> []" and "\<forall>vs. last st \<noteq> InArray vs" and "finish_value v st = Some (st', ex)"
  shows "st' \<noteq> [] \<and> (\<forall>vs. last st' \<noteq> InArray vs)"
  using assms by (cases "(v, st)" rule: finish_value.cases) (auto split: if_splits)

lemma start_value_bottom:
  assumes "st \<noteq> []" and "\<forall>vs. last st \<noteq> InArray vs" and "start_value t st = Some (st', ex)"
  shows "st' \<noteq> [] \<and> (\<forall>vs. last st' \<noteq> InArray vs)"
  using assms finish_value_bottom [OF assms(1,2)]
  by (cases t) auto

lemma start_member_bottom:
  assumes "st \<noteq> []" and "\<forall>vs. last st \<noteq> InArray vs" and "start_member t st = Some (st', ex)"
  shows "st' \<noteq> [] \<and> (\<forall>vs. last st' \<noteq> InArray vs)"
  using assms by (cases "(t, st)" rule: start_member.cases) (auto split: if_splits)

lemma close_frame_bottom:
  assumes "st \<noteq> []" and "\<forall>vs. last st \<noteq> InArray vs" and "close_frame t st = Some (st', ex)"
  shows "(st' \<noteq> [] \<and> (\<forall>vs. last st' \<noteq> InArray vs)) \<or> (st' = [] \<and> (\<exists>kvs. ex = End (JObject kvs)))"
proof (cases "(t, st)" rule: close_frame.cases)
  case (1 vs r)
  with assms have "r \<noteq> []" and "\<forall>vs. last r \<noteq> InArray vs" by (auto split: if_splits)
  from finish_value_bottom [OF this] 1 assms(3) show ?thesis by simp
next
  case (2 kvs r)
  show ?thesis
  proof (cases "r = []")
    case True
    with 2 assms(3) show ?thesis by auto
  next
    case False
    with 2 assms(2) have "\<forall>vs. last r \<noteq> InArray vs" by simp
    from finish_value_bottom [OF False this] 2 assms(3) show ?thesis by simp
  qed
qed (use assms in auto)

lemma parse_step_bottom:
  assumes "st \<noteq> []" and "\<forall>vs. last st \<noteq> InArray vs" and "parse_step (st, ex) t = Some (st', ex')"
  shows "(st' \<noteq> [] \<and> (\<forall>vs. last st' \<noteq> InArray vs)) \<or> (st' = [] \<and> (\<exists>kvs. ex' = End (JObject kvs)))"
  using assms(3) start_value_bottom [OF assms(1,2)] start_member_bottom [OF assms(1,2)]
    close_frame_bottom [OF assms(1,2)] assms(1,2)
  by (cases ex) (auto split: if_splits list.splits frame.splits)

lemma parse_tokens_End: "parse_tokens ([], End v) ts = Some x \<Longrightarrow> x = ([], End v)"
  by (cases ts) simp_all

lemma parse_tokens_bottom:
  assumes "st \<noteq> []" and "\<forall>vs. last st \<noteq> InArray vs"
    and "parse_tokens (st, ex) ts = Some ([], End v)"
  shows "\<exists>kvs. v = JObject kvs"
  using assms
proof (induction ts arbitrary: st ex)
  case Nil
  then show ?case by simp
next
  case (Cons t ts)
  from Cons.prems(3) obtain st' ex' where step: "parse_step (st, ex) t = Some (st', ex')"
    and rest: "parse_tokens (st', ex') ts = Some ([], End v)"
    by (auto split: option.splits)
  from parse_step_bottom [OF Cons.prems(1,2) step] show ?case
  proof
    assume "st' \<noteq> [] \<and> (\<forall>vs. last st' \<noteq> InArray vs)"
    with Cons.IH rest show ?thesis by blast
  next
    assume "st' = [] \<and> (\<exists>kvs. ex' = End (JObject kvs))"
    with rest parse_tokens_End show ?thesis by fastforce
  qed
qed

lemma JSON_parse_brace:
  assumes "JSON_parse (CHR ''{'' # s) = Inr v"
  shows "\<exists>kvs. v = JObject kvs"
proof -
  have "tokenize Idle (CHR ''{'' # s) = map_option (\<lambda>r. LBrace # r) (tokenize Idle s)"
    by (cases "tokenize Idle s") (simp_all add: idle_step_def is_json_space_def)
  with assms obtain ts where "parse_tokens ([], Value) (LBrace # ts) = Some ([], End v)"
    by (auto simp add: JSON_parse_def split: option.splits list.splits expect.splits)
  then have "parse_tokens ([InObject []], KeyOrClose) ts = Some ([], End v)"
    by simp
  from parse_tokens_bottom [OF _ _ this] show ?thesis by simp
qed

lemma read_analysis_fallback:
  assumes "CHR ''{'' \<notin> set text \<or> CHR ''}'' \<notin> set text
           \<or> lastIndexOf text (CHR ''}'') \<le> indexOf text (CHR ''{'')
           \<or> (\<exists>err. JSON_parse (slice text (indexOf text (CHR ''{'')) (lastIndexOf text (CHR ''}'') + 1)) = Inl err)"
  shows "read_analysis text a = a"
  using assms
  by (auto simp add: read_analysis_def Let_def indexOf_absent lastIndexOf_absent)

lemma read_analysis_object:
  assumes "indexOf text (CHR ''{'') \<noteq> -1"
    and "indexOf text (CHR ''{'') < lastIndexOf text (CHR ''}'')"
    and "JSON_parse (slice text (indexOf text (CHR ''{'')) (lastIndexOf text (CHR ''}'') + 1)) = Inr parsed"
  shows "\<exists>kvs. parsed = JObject kvs
           \<and> read_analysis text a =
               a\<lparr>strengths := array_or_empty (map_of (rev kvs) (wide ''strengths'')),
                 improvements := array_or_empty (map_of (rev kvs) (wide ''improvements'')),
                 tailoring := array_or_empty (map_of (rev kvs) (wide ''tailoring''))\<rparr>"
proof -
  from slice_starts_with [OF assms(1,2)] assms(3) JSON_parse_brace
  obtain kvs where obj: "parsed = JObject kvs" by metis
  from assms(1,2) indexOf_lower [of "text" "CHR ''{''"]
  have "lastIndexOf text (CHR ''}'') \<noteq> -1" by simp
  with assms obj show ?thesis
    by (simp add: read_analysis_def Let_def)
qed

lemma read_analysis_optional:
  "customizedResume (read_analysis text a) = customizedResume a"
  "specificChanges (read_analysis text a) = specificChanges a"
  "coverLetter (read_analysis text a) = coverLetter a"
  by (simp_all add: read_analysis_def Let_def split: sum.splits)

subsection \<open>A run with a job description\<close>

lemma run_tasks_eligible:
  assumes "trim j \<noteq> []"
    and "openai (user_request (analysisPrompt r j) (7 / 10)) = Inr analysisResp"
  shows "run_tasks openai r j =
           cover_letter_block openai r j
             (changes_block openai (Some (specificChangesText r j))
                (customize_block openai (Some (customizeText r j))
                   (read_analysis (first_content analysisResp) default_analysis,
                    [user_request (analysisPrompt r j) (7 / 10)])))"
  using assms
  by (simp add: run_tasks_def chat_create_def customizePrompt_def specificChangesPrompt_def)

lemma customize_block_Some:
  "customize_block openai (Some p) (a, sent) =
     (case openai (user_request p (7 / 10)) of
        Inl err \<Rightarrow> a
      | Inr resp \<Rightarrow>
          if trim (first_content resp) \<noteq> []
          then a\<lparr>customizedResume := Some (trim (first_content resp))\<rparr> else a,
      sent @ [user_request p (7 / 10)])"
  by (simp add: customize_block_def chat_create_def Let_def split: sum.splits)

lemma changes_block_Some:
  "changes_block openai (Some p) (a, sent) =
     (case openai (user_request p (7 / 10)) of
        Inl err \<Rightarrow> a
      | Inr resp \<Rightarrow>
          if trim (first_content resp) \<noteq> []
          then a\<lparr>specificChanges := Some (trim (first_content resp))\<rparr> else a,
      sent @ [user_request p (7 / 10)])"
  by (simp add: changes_block_def chat_create_def Let_def split: sum.splits)

lemma cover_letter_block_eligible:
  "trim j \<noteq> [] \<Longrightarrow>
   cover_letter_block openai r j (a, sent) =
     (a\<lparr>coverLetter :=
          Some (case openai (user_request (coverLetterPrompt r j) (8 / 10)) of
                  Inl err \<Rightarrow> failed_cover_letter err
                | Inr resp \<Rightarrow>
                    if trim (first_content resp) \<noteq> [] then trim (first_content resp)
                    else empty_cover_letter)\<rparr>,
      sent @ [user_request (coverLetterPrompt r j) (8 / 10)])"
  by (simp add: cover_letter_block_def chat_create_def Let_def split: sum.splits)

lemmas run_eligible =
  analyze_resume_runs run_tasks_eligible customize_block_Some changes_block_Some
  cover_letter_block_eligible read_analysis_optional

subsection \<open>A run whose analysis call fails\<close>

text \<open>
  Every run whose analysis call fails ends there: the handler answers with the default
  analysis, and the analysis request is the only request it has sent.
\<close>

lemma analysis_rejection_ends_the_run:
  assumes "trim r \<noteq> []"
    and "openai (user_request (analysisPrompt r j) (7 / 10)) = Inl err"
  shows "analyze_resume (Some openai) (Some r) (Some j) =
           (Success default_analysis, [user_request (analysisPrompt r j) (7 / 10)])"
  using assms by (simp add: analyze_resume_def run_tasks_def chat_create_def)


subsection \<open>Sample values\<close>

lemma first_content_completion [simp]: "first_content (completion s) = s"
  by (simp add: first_content_def completion_def)

lemma trim_samples [simp]:
  "trim ''R'' = ''R''" "trim ''J'' = ''J''" "trim [] = []" "trim ''  '' = []"
  "trim ''Resume'' = ''Resume''" "trim ''Changes'' = ''Changes''" "trim ''Letter'' = ''Letter''"
  "trim '' Changes '' = ''Changes''"
  by (simp_all add: trim_def is_white_space_def)

lemma wide_eq_iff [simp]: "wide a = wide b \<longleftrightarrow> a = b"
  by (simp add: wide_def inj_map_eq_map inj_on_def)

lemma read_analysis_no_json [simp]: "read_analysis ''no json'' a = a"
  by (rule read_analysis_fallback) simp


subsection \<open>Reading a decoded PDF\<close>

lemma trim_append_white:
  assumes "is_white_space w"
  shows "trim (s @ [w]) = trim s"
proof (cases "\<forall>x\<in>set s. is_white_space x")
  case True
  then have whole: "dropWhile is_white_space s = []" by simp
  from True assms have "\<forall>x\<in>set (s @ [w]). is_white_space x" by simp
  then have extended: "dropWhile is_white_space (s @ [w]) = []"
    by (simp only: dropWhile_eq_Nil_conv)
  show ?thesis by (simp only: trim_def whole extended)
next
  case False
  then have "dropWhile is_white_space (s @ [w]) = dropWhile is_white_space s @ [w]"
    by (simp add: dropWhile_append)
  with assms show ?thesis by (simp add: trim_def)
qed

lemma concat_terminated:
  "concat (map (\<lambda>p. p @ sep) ps) = (if ps = [] then [] else join ps sep @ sep)"
  by (induction ps sep rule: join.induct) simp_all

lemma page_loop_valid:
  assumes "pdf = map (\<lambda>items. Inr (Inr items)) pages" and "1 \<le> i"
  shows "page_loop pdf i acc =
           Inr (acc @ concat (map (\<lambda>items. join (map item_str items) '' '' @ ''\<newline>'')
                                (drop (i - 1) pages)))"
  using assms
proof (induction pdf i acc rule: page_loop.induct)
  case (1 pdf i acc)
  show ?case
  proof (cases "i \<le> numPages pdf")
    case True
    with 1 have inside: "i - 1 < length pages" by (simp add: numPages_def)
    with 1 True have page: "getPage pdf i = Inr (Inr (pages ! (i - 1)))"
      by (simp add: getPage_def numPages_def)
    from inside 1 have split: "drop (i - 1) pages = pages ! (i - 1) # drop i pages"
      using Cons_nth_drop_Suc [of "i - 1" pages] by simp
    from "1.IH" [OF True page refl "1.prems"(1)] "1.prems"(2)
    have "page_loop pdf (i + 1) (acc @ join (map item_str (pages ! (i - 1))) '' '' @ ''\<newline>'') =
            Inr ((acc @ join (map item_str (pages ! (i - 1))) '' '' @ ''\<newline>'')
                 @ concat (map (\<lambda>items. join (map item_str items) '' '' @ ''\<newline>'') (drop i pages)))"
      by simp
    with True page split show ?thesis
      by (subst page_loop.simps) simp
  next
    case False
    with 1 show ?thesis
      by (subst page_loop.simps) (simp add: numPages_def)
  qed
qed

lemma trim_pages:
  "trim (concat (map (\<lambda>items. join (map item_str items) '' '' @ ''\<newline>'') pages)) =
   trim (join (map (\<lambda>items. join (map item_str items) '' '') pages) ''\<newline>'')"
proof -
  let ?texts = "map (\<lambda>items. join (map item_str items) '' '') pages"
  have "concat (map (\<lambda>items. join (map item_str items) '' '' @ ''\<newline>'') pages) =
        concat (map (\<lambda>p. p @ ''\<newline>'') ?texts)"
    by (simp add: comp_def)
  also have "\<dots> = (if ?texts = [] then [] else join ?texts ''\<newline>'' @ ''\<newline>'')"
    by (rule concat_terminated)
  finally have shape:
    "concat (map (\<lambda>items. join (map item_str items) '' '' @ ''\<newline>'') pages) =
       (if ?texts = [] then [] else join ?texts ''\<newline>'' @ ''\<newline>'')" .
  have white: "is_white_space (CHR ''\<newline>'')" by (simp add: is_white_space_def)
  show ?thesis
  proof (cases "pages = []")
    case True
    then show ?thesis by simp
  next
    case False
    with shape trim_append_white [OF white, of "join ?texts ''\<newline>''"] show ?thesis
      by simp
  qed
qed

lemma read_pdf_valid:
  assumes "arrayBuffer file = Inr buffer"
    and "getDocument buffer = Inr (map (\<lambda>items. Inr (Inr items)) pages)"
  shows "read_pdf getDocument file st =
           (Inr (concat (map (\<lambda>items. join (map item_str items) '' '' @ ''\<newline>'') pages)),
            st\<lparr>decoded := decoded st @ [buffer]\<rparr>)"
  using assms page_loop_valid [OF refl, of 1 pages "[]"]
  by (simp add: read_pdf_def)

lemma file_samples [simp]:
  "endsWith (toLowerCase ''resume.pdf'') ''.pdf''"
  "endsWith (toLowerCase ''Notes.PDF'') ''.pdf''"
  "\<not> endsWith (toLowerCase ''notes.txt'') ''.pdf''"
  by code_simp+

subsection \<open>A cover-letter request that throws\<close>

lemma request_cover_letter_logs:
  "snd (request_cover_letter fetch st) =
     st\<lparr>isGeneratingCoverLetter := True,
        fetched := fetched st @ [analyze_request (resumeText st) (jobDescription st)]\<rparr>"
  by (simp add: request_cover_letter_def Let_def
      split: sum.splits option.splits json.splits)

lemma handleGenerateCoverLetter_failed:
  assumes "fst (request_cover_letter fetch st) = Inl err"
  shows "analysis (handleGenerateCoverLetter fetch st) = analysis st"
proof -
  from assms request_cover_letter_logs [of fetch st]
  have "request_cover_letter fetch st =
          (Inl err, st\<lparr>isGeneratingCoverLetter := True,
                      fetched := fetched st @ [analyze_request (resumeText st) (jobDescription st)]\<rparr>)"
    by (cases "request_cover_letter fetch st") simp
  then show ?thesis
    by (simp add: handleGenerateCoverLetter_def toast_def)
qed

lemma letter_samples [simp]:
  "\<not> includes_str ''Dear Hiring Manager,'' ''generation failed''"
  "\<not> includes_str ''Dear Hiring Manager,'' ''empty response''"
  "includes_str ''Cover letter generation failed: quota exceeded. Please try again.'' ''generation failed''"
  by code_simp+

section \<open>The claims\<close>

subsection \<open>C1: a failing analysis call\<close>

text \<open>
  Claim C1 says that, when the analysis generation call fails, the result holds the
  fixed default triple and the customization, specific-changes and cover-letter tasks
  are still attempted when the job description is not empty. The handler keeps the
  first half and breaks the second: on the run of \<open>analysis_down\<close> with the resume
  \<open>''R''\<close> and the job description \<open>''J''\<close>, which is not empty, the analysis call
  rejects, the answer is the default analysis with no \<open>customizedResume\<close>, no
  \<open>specificChanges\<close> and no \<open>coverLetter\<close>, and the analysis request is the only request
  sent. The three task blocks, each with a \<^verbatim>\<open>catch\<close> of its own, stand inside the
  \<^verbatim>\<open>try\<close> that the rejected analysis call leaves, against the handler's own comments
  that the cover letter is set whenever a job description is provided.
\<close>

theorem analysis_failure_skips_the_later_tasks:
  "trim ''R'' \<noteq> [] \<and> trim ''J'' \<noteq> []
   \<and> analysis_down (user_request (analysisPrompt ''R'' ''J'') (7 / 10)) = Inl (Error ''service down'')
   \<and> analyze_resume (Some analysis_down) (Some ''R'') (Some ''J'') =
       (Success \<lparr>strengths = default_strengths, improvements = default_improvements,
                 tailoring = default_tailoring, customizedResume = None,
                 specificChanges = None, coverLetter = None\<rparr>,
        [user_request (analysisPrompt ''R'' ''J'') (7 / 10)])"
  by (simp add: analysis_down_def analyze_resume_def run_tasks_def chat_create_def
      default_analysis_def)

subsection \<open>C2: an analysis reply without usable JSON\<close>

text \<open>
  Claim C2: for every raw analysis response containing no brace pair (no \<open>{\<close>, no
  \<open>}\<close>, or the last \<open>}\<close> not after the first \<open>{\<close>), or containing malformed JSON
  between the first \<open>{\<close> and the last \<open>}\<close> (text on which \<^verbatim>\<open>JSON.parse\<close> throws), the
  result's strengths, improvements and tailoring equal the fixed default triple of two
  strings each, never empty or absent arrays.
\<close>

theorem unparsable_analysis_gives_defaults:
  assumes "trim r \<noteq> []"
    and "openai (user_request (analysisPrompt r j) (7 / 10)) = Inr analysisResp"
    and "analysisText = first_content analysisResp"
    and "CHR ''{'' \<notin> set analysisText \<or> CHR ''}'' \<notin> set analysisText
         \<or> lastIndexOf analysisText (CHR ''}'') \<le> indexOf analysisText (CHR ''{'')
         \<or> (\<exists>parseErr.
               JSON_parse (slice analysisText (indexOf analysisText (CHR ''{''))
                             (lastIndexOf analysisText (CHR ''}'') + 1)) = Inl parseErr)"
  shows "\<exists>a sent. analyze_resume (Some openai) (Some r) (Some j) = (Success a, sent)
           \<and> strengths a =
               [JString (wide ''Solid technical foundation communicated clearly.''),
                JString (wide ''Highlights relevant experience and impact-driven bullet points.'')]
           \<and> improvements a =
               [JString (wide ''Quantify achievements (e.g., impact, metrics) wherever possible.''),
                JString (wide ''Add a short summary that aligns with the target role's keywords.'')]
           \<and> tailoring a =
               [JString (wide ''Mirror key phrases from the job description in the skills section.''),
                JString (wide ''Mention recent projects that demonstrate the required tools or domains.'')]"
proof -
  from assms(3,4) have "read_analysis (first_content analysisResp) default_analysis = default_analysis"
    by (intro read_analysis_fallback) simp
  with run_tasks_arrays [where openai = openai, OF assms(2)] assms(1) show ?thesis
    by (simp add: analyze_resume_runs default_analysis_def default_strengths_def
        default_improvements_def default_tailoring_def)
qed

text \<open>
  Claim C2 on the run of \<open>malformed_reply\<close>: the reply holds a brace pair, and the
  text between the braces has a trailing comma, which \<open>JSON_parse\<close> rejects.
\<close>

theorem unparsable_analysis_gives_defaults_witness:
  \<open>trim ''R'' \<noteq> []
   \<and> malformed_reply (user_request (analysisPrompt ''R'' ''J'') (7 / 10)) =
       Inr (completion ''Here you go: {"strengths": ["a",]}'')
   \<and> JSON_parse (slice ''Here you go: {"strengths": ["a",]}''
                     (indexOf ''Here you go: {"strengths": ["a",]}'' (CHR ''{''))
                     (lastIndexOf ''Here you go: {"strengths": ["a",]}'' (CHR ''}'') + 1)) =
       Inl (Error ''SyntaxError'')
   \<and> (\<exists>a sent. analyze_resume (Some malformed_reply) (Some ''R'') (Some ''J'') = (Success a, sent)
         \<and> strengths a =
             [JString (wide ''Solid technical foundation communicated clearly.''),
              JString (wide ''Highlights relevant experience and impact-driven bullet points.'')]
         \<and> improvements a =
             [JString (wide ''Quantify achievements (e.g., impact, metrics) wherever possible.''),
              JString (wide ''Add a short summary that aligns with the target role's keywords.'')]
         \<and> tailoring a =
             [JString (wide ''Mirror key phrases from the job description in the skills section.''),
              JString (wide ''Mention recent projects that demonstrate the required tools or domains.'')])\<close>
proof -
  have nonempty: "trim ''R'' \<noteq> []" by simp
  have reply:
    \<open>malformed_reply (user_request (analysisPrompt ''R'' ''J'') (7 / 10)) =
       Inr (completion ''Here you go: {"strengths": ["a",]}'')\<close>
    by (simp add: malformed_reply_def)
  have content:
    \<open>''Here you go: {"strengths": ["a",]}'' =
       first_content (completion ''Here you go: {"strengths": ["a",]}'')\<close>
    by simp
  have rejected:
    \<open>JSON_parse (slice ''Here you go: {"strengths": ["a",]}''
                    (indexOf ''Here you go: {"strengths": ["a",]}'' (CHR ''{''))
                    (lastIndexOf ''Here you go: {"strengths": ["a",]}'' (CHR ''}'') + 1)) =
       Inl (Error ''SyntaxError'')\<close>
    by code_simp
  from unparsable_analysis_gives_defaults
    [where openai = malformed_reply, OF nonempty reply content] rejected nonempty reply
  show ?thesis by blast
qed

subsection \<open>C3: an analysis reply that parses\<close>

text \<open>
  Claim C3, as stated, fails at this input. The reply \<open>{"strengths":[1]}\<close> parses, its
  \<open>strengths\<close> is an array of numbers and so not an array of strings, and the result's
  strengths is that array, not the empty sequence.
\<close>

theorem array_of_numbers_is_kept_counterexample:
  \<open>numbers_reply (user_request (analysisPrompt ''R'' ''J'') (7 / 10)) =
     Inr (completion ''{"strengths":[1]}'')
   \<and> JSON_parse (slice ''{"strengths":[1]}'' (indexOf ''{"strengths":[1]}'' (CHR ''{''))
                     (lastIndexOf ''{"strengths":[1]}'' (CHR ''}'') + 1)) =
       Inr (JObject [(wide ''strengths'', JArray [JNumber ''1''])])
   \<and> fst (analyze_resume (Some numbers_reply) (Some ''R'') (Some ''J'')) =
       Success \<lparr>strengths = [JNumber ''1''], improvements = [], tailoring = [],
                customizedResume = Some ''Resume'', specificChanges = Some ''Changes'',
                coverLetter = Some ''Letter''\<rparr>\<close>
proof -
  have parsed:
    \<open>JSON_parse (slice ''{"strengths":[1]}'' (indexOf ''{"strengths":[1]}'' (CHR ''{''))
                    (lastIndexOf ''{"strengths":[1]}'' (CHR ''}'') + 1)) =
       Inr (JObject [(wide ''strengths'', JArray [JNumber ''1''])])\<close>
    by code_simp
  have "indexOf ''{\"strengths\":[1]}'' (CHR ''{'') = 0"
    and "lastIndexOf ''{\"strengths\":[1]}'' (CHR ''}'') = 16"
    by simp_all
  with parsed
  have "read_analysis ''{\"strengths\":[1]}'' default_analysis =
          default_analysis\<lparr>strengths := [JNumber ''1''], improvements := [], tailoring := []\<rparr>"
    by (simp add: read_analysis_def)
  then show ?thesis using parsed
    by (simp add: numbers_reply_def run_eligible default_analysis_def)
qed

text \<open>
  Claim C3, amended: for every analysis response whose slice from the first \<open>{\<close> to the
  last \<open>}\<close> parses as JSON, the parsed value is an object, and each of the result's
  strengths, improvements and tailoring equals the object's member of that name when the
  member is an array, whatever its elements are, and the empty sequence otherwise (a
  missing member or any value that is not an array).
\<close>

theorem parsed_analysis_keeps_arrays:
  assumes "trim r \<noteq> []"
    and "openai (user_request (analysisPrompt r j) (7 / 10)) = Inr analysisResp"
    and "analysisText = first_content analysisResp"
    and "indexOf analysisText (CHR ''{'') \<noteq> -1"
    and "indexOf analysisText (CHR ''{'') < lastIndexOf analysisText (CHR ''}'')"
    and "JSON_parse (slice analysisText (indexOf analysisText (CHR ''{''))
                       (lastIndexOf analysisText (CHR ''}'') + 1)) = Inr parsed"
  shows "\<exists>a sent members. analyze_resume (Some openai) (Some r) (Some j) = (Success a, sent)
           \<and> parsed = JObject members
           \<and> strengths a =
               (case map_of (rev members) (wide ''strengths'') of Some (JArray xs) \<Rightarrow> xs | _ \<Rightarrow> [])
           \<and> improvements a =
               (case map_of (rev members) (wide ''improvements'') of Some (JArray xs) \<Rightarrow> xs | _ \<Rightarrow> [])
           \<and> tailoring a =
               (case map_of (rev members) (wide ''tailoring'') of Some (JArray xs) \<Rightarrow> xs | _ \<Rightarrow> [])"
proof -
  have shape: "array_or_empty v = (case v of Some (JArray xs) \<Rightarrow> xs | _ \<Rightarrow> [])" for v
    by (cases v rule: array_or_empty.cases) simp_all
  from read_analysis_object [OF assms(4-6) [unfolded assms(3)], of default_analysis]
  obtain members where "parsed = JObject members"
    and "read_analysis (first_content analysisResp) default_analysis =
           default_analysis\<lparr>strengths := array_or_empty (map_of (rev members) (wide ''strengths'')),
             improvements := array_or_empty (map_of (rev members) (wide ''improvements'')),
             tailoring := array_or_empty (map_of (rev members) (wide ''tailoring''))\<rparr>"
    by blast
  with run_tasks_arrays [where openai = openai, OF assms(2)] assms(1) show ?thesis
    by (simp add: analyze_resume_runs shape)
qed

text \<open>
  Claim C3, amended, on two runs: that of \<open>noisy_reply\<close>, whose reply is the
  specification's example of a well-formed object wrapped in prose, and that of
  \<open>escaped_reply\<close>, whose reply names the bullet sign by an escape: the result's
  strengths holds the string of the code units 0x2022, 0x20, 0x61.
\<close>

theorem parsed_analysis_keeps_arrays_witness:
  \<open>trim ''R'' \<noteq> []
   \<and> noisy_reply (user_request (analysisPrompt ''R'' ''J'') (7 / 10)) =
       Inr (completion ''noise {"strengths":["a"],"improvements":[],"tailoring":["b","c"]} trailing'')
   \<and> indexOf ''noise {"strengths":["a"],"improvements":[],"tailoring":["b","c"]} trailing'' (CHR ''{'') = 6
   \<and> lastIndexOf ''noise {"strengths":["a"],"improvements":[],"tailoring":["b","c"]} trailing'' (CHR ''}'') = 64
   \<and> JSON_parse (slice ''noise {"strengths":["a"],"improvements":[],"tailoring":["b","c"]} trailing'' 6 (64 + 1)) =
       Inr (JObject [(wide ''strengths'', JArray [JString (wide ''a'')]), (wide ''improvements'', JArray []),
                     (wide ''tailoring'', JArray [JString (wide ''b''), JString (wide ''c'')])])
   \<and> (\<exists>a sent. analyze_resume (Some noisy_reply) (Some ''R'') (Some ''J'') = (Success a, sent)
         \<and> strengths a = [JString (wide ''a'')] \<and> improvements a = []
         \<and> tailoring a = [JString (wide ''b''), JString (wide ''c'')])
   \<and> escaped_reply (user_request (analysisPrompt ''R'' ''J'') (7 / 10)) = Inr (completion bullet_text)
   \<and> indexOf bullet_text (CHR ''{'') = 0
   \<and> lastIndexOf bullet_text (CHR ''}'') = 25
   \<and> JSON_parse (slice bullet_text 0 (25 + 1)) =
       Inr (JObject [(wide ''strengths'', JArray [JString [0x2022, 0x20, 0x61]])])
   \<and> (\<exists>a sent. analyze_resume (Some escaped_reply) (Some ''R'') (Some ''J'') = (Success a, sent)
         \<and> strengths a = [JString [0x2022, 0x20, 0x61]] \<and> improvements a = []
         \<and> tailoring a = [])\<close>
proof -
  let ?text = \<open>''noise {"strengths":["a"],"improvements":[],"tailoring":["b","c"]} trailing''\<close>
  have nonempty: "trim ''R'' \<noteq> []" by simp
  have reply: "noisy_reply (user_request (analysisPrompt ''R'' ''J'') (7 / 10)) = Inr (completion ?text)"
    by (simp add: noisy_reply_def)
  have content: "?text = first_content (completion ?text)" by simp
  have first: "indexOf ?text (CHR ''{'') = 6" by simp
  have last: "lastIndexOf ?text (CHR ''}'') = 64" by simp
  have parsed:
    "JSON_parse (slice ?text 6 (64 + 1)) =
       Inr (JObject [(wide ''strengths'', JArray [JString (wide ''a'')]), (wide ''improvements'', JArray []),
                     (wide ''tailoring'', JArray [JString (wide ''b''), JString (wide ''c'')])])"
    by code_simp
  have found: "indexOf ?text (CHR ''{'') \<noteq> -1" using first by simp
  have ordered: "indexOf ?text (CHR ''{'') < lastIndexOf ?text (CHR ''}'')" using first last by simp
  have parsed': "JSON_parse (slice ?text (indexOf ?text (CHR ''{'')) (lastIndexOf ?text (CHR ''}'') + 1)) =
       Inr (JObject [(wide ''strengths'', JArray [JString (wide ''a'')]), (wide ''improvements'', JArray []),
                     (wide ''tailoring'', JArray [JString (wide ''b''), JString (wide ''c'')])])"
    using parsed first last by simp
  from parsed_analysis_keeps_arrays
    [where openai = noisy_reply, OF nonempty reply content found ordered parsed']
  have noisy: "\<exists>a sent. analyze_resume (Some noisy_reply) (Some ''R'') (Some ''J'') = (Success a, sent)
         \<and> strengths a = [JString (wide ''a'')] \<and> improvements a = []
         \<and> tailoring a = [JString (wide ''b''), JString (wide ''c'')]"
    by auto
  have reply2: "escaped_reply (user_request (analysisPrompt ''R'' ''J'') (7 / 10)) = Inr (completion bullet_text)"
    by (simp add: escaped_reply_def)
  have content2: "bullet_text = first_content (completion bullet_text)" by simp
  have first2: "indexOf bullet_text (CHR ''{'') = 0"
    and last2: "lastIndexOf bullet_text (CHR ''}'') = 25"
    by (simp_all add: bullet_text_def)
  have parsed2:
    "JSON_parse (slice bullet_text 0 (25 + 1)) =
       Inr (JObject [(wide ''strengths'', JArray [JString [0x2022, 0x20, 0x61]])])"
    by code_simp
  have found2: "indexOf bullet_text (CHR ''{'') \<noteq> -1" using first2 by simp
  have ordered2: "indexOf bullet_text (CHR ''{'') < lastIndexOf bullet_text (CHR ''}'')"
    using first2 last2 by simp
  have parsed2': "JSON_parse (slice bullet_text (indexOf bullet_text (CHR ''{''))
                                (lastIndexOf bullet_text (CHR ''}'') + 1)) =
       Inr (JObject [(wide ''strengths'', JArray [JString [0x2022, 0x20, 0x61]])])"
    using parsed2 first2 last2 by simp
  from parsed_analysis_keeps_arrays
    [where openai = escaped_reply, OF nonempty reply2 content2 found2 ordered2 parsed2']
  have escaped: "\<exists>a sent. analyze_resume (Some escaped_reply) (Some ''R'') (Some ''J'') = (Success a, sent)
         \<and> strengths a = [JString [0x2022, 0x20, 0x61]] \<and> improvements a = []
         \<and> tailoring a = []"
    by auto
  from nonempty reply first last parsed noisy reply2 first2 last2 parsed2 escaped
  show ?thesis by blast
qed

subsection \<open>C4: only the customization call fails\<close>

text \<open>
  Claim C4, as stated, fails at this input. The job description is not empty, the
  customization call is the only one that fails, and the specific-changes call returns
  no content: \<open>specificChanges\<close> is absent from the result.
\<close>

theorem blank_changes_after_customization_failure_counterexample:
  "trim ''J'' \<noteq> []
   \<and> customize_down_changes_blank (user_request (analysisPrompt ''R'' ''J'') (7 / 10)) =
       Inr (completion ''no json'')
   \<and> customize_down_changes_blank (user_request (customizeText ''R'' ''J'') (7 / 10)) =
       Inl (Error ''boom'')
   \<and> customize_down_changes_blank (user_request (specificChangesText ''R'' ''J'') (7 / 10)) =
       Inr (completion [])
   \<and> customize_down_changes_blank (user_request (coverLetterPrompt ''R'' ''J'') (8 / 10)) =
       Inr (completion ''Letter'')
   \<and> fst (analyze_resume (Some customize_down_changes_blank) (Some ''R'') (Some ''J'')) =
       Success \<lparr>strengths = default_strengths, improvements = default_improvements,
                tailoring = default_tailoring, customizedResume = None,
                specificChanges = None, coverLetter = Some ''Letter''\<rparr>"
  by (simp add: customize_down_changes_blank_def run_eligible default_analysis_def)

text \<open>
  Claim C4, amended: if, during a full run with a non-empty job description, only the
  customization generation call fails, the four requests are sent in the order
  analysis, customization, specific changes, cover letter; in the returned result
  \<open>customizedResume\<close> is absent, \<open>coverLetter\<close> is present (the trimmed letter, or the
  fixed empty-response notice when the letter trims to nothing), and \<open>specificChanges\<close>
  is present exactly when the specific-changes output does not trim to the empty
  string, and then holds the trimmed output.
\<close>

theorem customization_failure_is_contained:
  assumes "trim r \<noteq> []" and "trim j \<noteq> []"
    and "openai (user_request (analysisPrompt r j) (7 / 10)) = Inr analysisResp"
    and "openai (user_request (customizeText r j) (7 / 10)) = Inl customizeErr"
    and "openai (user_request (specificChangesText r j) (7 / 10)) = Inr changesResp"
    and "openai (user_request (coverLetterPrompt r j) (8 / 10)) = Inr coverLetterResp"
  shows "\<exists>a. analyze_resume (Some openai) (Some r) (Some j) =
               (Success a,
                [user_request (analysisPrompt r j) (7 / 10),
                 user_request (customizeText r j) (7 / 10),
                 user_request (specificChangesText r j) (7 / 10),
                 user_request (coverLetterPrompt r j) (8 / 10)])
           \<and> customizedResume a = None
           \<and> specificChanges a =
               (if trim (first_content changesResp) \<noteq> []
                then Some (trim (first_content changesResp)) else None)
           \<and> coverLetter a =
               Some (if trim (first_content coverLetterResp) \<noteq> []
                     then trim (first_content coverLetterResp) else empty_cover_letter)"
  using assms
  by (simp add: run_eligible default_analysis_def)

text \<open>Claim C4, amended, on the run of \<open>customize_down\<close>.\<close>

theorem customization_failure_is_contained_witness:
  "trim ''R'' \<noteq> [] \<and> trim ''J'' \<noteq> []
   \<and> customize_down (user_request (analysisPrompt ''R'' ''J'') (7 / 10)) = Inr (completion ''no json'')
   \<and> customize_down (user_request (customizeText ''R'' ''J'') (7 / 10)) = Inl (Error ''boom'')
   \<and> customize_down (user_request (specificChangesText ''R'' ''J'') (7 / 10)) =
       Inr (completion '' Changes '')
   \<and> customize_down (user_request (coverLetterPrompt ''R'' ''J'') (8 / 10)) =
       Inr (completion ''Letter'')
   \<and> (\<exists>a. analyze_resume (Some customize_down) (Some ''R'') (Some ''J'') =
              (Success a,
               [user_request (analysisPrompt ''R'' ''J'') (7 / 10),
                user_request (customizeText ''R'' ''J'') (7 / 10),
                user_request (specificChangesText ''R'' ''J'') (7 / 10),
                user_request (coverLetterPrompt ''R'' ''J'') (8 / 10)])
          \<and> customizedResume a = None
          \<and> specificChanges a = Some ''Changes''
          \<and> coverLetter a = Some ''Letter'')"
proof -
  have r: "trim ''R'' \<noteq> []" and j: "trim ''J'' \<noteq> []" by simp_all
  have analysis: "customize_down (user_request (analysisPrompt ''R'' ''J'') (7 / 10)) = Inr (completion ''no json'')"
    and customize: "customize_down (user_request (customizeText ''R'' ''J'') (7 / 10)) = Inl (Error ''boom'')"
    and changes: "customize_down (user_request (specificChangesText ''R'' ''J'') (7 / 10)) =
       Inr (completion '' Changes '')"
    and letter: "customize_down (user_request (coverLetterPrompt ''R'' ''J'') (8 / 10)) =
       Inr (completion ''Letter'')"
    by (simp_all add: customize_down_def)
  from customization_failure_is_contained
    [where openai = customize_down, OF r j analysis customize changes letter]
  have "\<exists>a. analyze_resume (Some customize_down) (Some ''R'') (Some ''J'') =
              (Success a,
               [user_request (analysisPrompt ''R'' ''J'') (7 / 10),
                user_request (customizeText ''R'' ''J'') (7 / 10),
                user_request (specificChangesText ''R'' ''J'') (7 / 10),
                user_request (coverLetterPrompt ''R'' ''J'') (8 / 10)])
          \<and> customizedResume a = None
          \<and> specificChanges a = Some ''Changes''
          \<and> coverLetter a = Some ''Letter''"
    by simp
  with r j analysis customize changes letter show ?thesis by blast
qed

subsection \<open>C5: a free-text task that returns white space\<close>

text \<open>
  Claim C5, as stated, fails at this input. The cover-letter output \<open>''  ''\<close> trims to
  the empty string, and the result carries a \<open>coverLetter\<close>: the fixed notice of an
  empty response.
\<close>

theorem blank_cover_letter_is_reported_counterexample:
  "trim ''  '' = []
   \<and> blank_outputs (user_request (coverLetterPrompt ''R'' ''J'') (8 / 10)) = Inr (completion ''  '')
   \<and> fst (analyze_resume (Some blank_outputs) (Some ''R'') (Some ''J'')) =
       Success \<lparr>strengths = default_strengths, improvements = default_improvements,
                tailoring = default_tailoring, customizedResume = None,
                specificChanges = None,
                coverLetter =
                  Some ''Cover letter generation returned an empty response. Please try again.''\<rparr>"
  by (simp add: blank_outputs_def run_eligible default_analysis_def empty_cover_letter_def)

text \<open>
  Claim C5, amended: in a full run with a non-empty job description whose analysis
  call succeeds, a raw customization output that trims to the empty string leaves
  \<open>customizedResume\<close> out of the result, and a raw specific-changes output that trims to
  the empty string leaves \<open>specificChanges\<close> out; a raw cover-letter output that trims to
  the empty string sets \<open>coverLetter\<close> to the fixed notice "Cover letter generation
  returned an empty response. Please try again." In no case is the run an error.
\<close>

theorem blank_output_of_a_free_text_task:
  assumes "trim r \<noteq> []" and "trim j \<noteq> []"
    and "openai (user_request (analysisPrompt r j) (7 / 10)) = Inr analysisResp"
  shows "\<exists>a sent. analyze_resume (Some openai) (Some r) (Some j) = (Success a, sent)
           \<and> (\<forall>resp. openai (user_request (customizeText r j) (7 / 10)) = Inr resp
                  \<and> trim (first_content resp) = [] \<longrightarrow> customizedResume a = None)
           \<and> (\<forall>resp. openai (user_request (specificChangesText r j) (7 / 10)) = Inr resp
                  \<and> trim (first_content resp) = [] \<longrightarrow> specificChanges a = None)
           \<and> (\<forall>resp. openai (user_request (coverLetterPrompt r j) (8 / 10)) = Inr resp
                  \<and> trim (first_content resp) = [] \<longrightarrow>
                  coverLetter a =
                    Some ''Cover letter generation returned an empty response. Please try again.'')"
  using assms
  by (auto simp add: run_eligible default_analysis_def empty_cover_letter_def split: sum.splits)

text \<open>Claim C5, amended, on the run of \<open>blank_outputs\<close>.\<close>

theorem blank_output_of_a_free_text_task_witness:
  "trim ''R'' \<noteq> [] \<and> trim ''J'' \<noteq> []
   \<and> blank_outputs (user_request (analysisPrompt ''R'' ''J'') (7 / 10)) = Inr (completion ''no json'')
   \<and> blank_outputs (user_request (customizeText ''R'' ''J'') (7 / 10)) = Inr (completion ''  '')
   \<and> blank_outputs (user_request (specificChangesText ''R'' ''J'') (7 / 10)) = Inr (completion ''  '')
   \<and> blank_outputs (user_request (coverLetterPrompt ''R'' ''J'') (8 / 10)) = Inr (completion ''  '')
   \<and> trim (first_content (completion ''  '')) = []
   \<and> (\<exists>a sent. analyze_resume (Some blank_outputs) (Some ''R'') (Some ''J'') = (Success a, sent)
         \<and> customizedResume a = None \<and> specificChanges a = None
         \<and> coverLetter a =
             Some ''Cover letter generation returned an empty response. Please try again.'')"
proof -
  have r: "trim ''R'' \<noteq> []" and j: "trim ''J'' \<noteq> []" by simp_all
  have analysis: "blank_outputs (user_request (analysisPrompt ''R'' ''J'') (7 / 10)) = Inr (completion ''no json'')"
    and customize: "blank_outputs (user_request (customizeText ''R'' ''J'') (7 / 10)) = Inr (completion ''  '')"
    and changes: "blank_outputs (user_request (specificChangesText ''R'' ''J'') (7 / 10)) = Inr (completion ''  '')"
    and letter: "blank_outputs (user_request (coverLetterPrompt ''R'' ''J'') (8 / 10)) = Inr (completion ''  '')"
    by (simp_all add: blank_outputs_def)
  have blank: "trim (first_content (completion ''  '')) = []" by simp
  from blank_output_of_a_free_text_task [where openai = blank_outputs, OF r j analysis]
  obtain a sent where run: "analyze_resume (Some blank_outputs) (Some ''R'') (Some ''J'') = (Success a, sent)"
    and "\<forall>resp. blank_outputs (user_request (customizeText ''R'' ''J'') (7 / 10)) = Inr resp
            \<and> trim (first_content resp) = [] \<longrightarrow> customizedResume a = None"
    and "\<forall>resp. blank_outputs (user_request (specificChangesText ''R'' ''J'') (7 / 10)) = Inr resp
            \<and> trim (first_content resp) = [] \<longrightarrow> specificChanges a = None"
    and "\<forall>resp. blank_outputs (user_request (coverLetterPrompt ''R'' ''J'') (8 / 10)) = Inr resp
            \<and> trim (first_content resp) = [] \<longrightarrow>
            coverLetter a =
              Some ''Cover letter generation returned an empty response. Please try again.''"
    by blast
  with customize changes letter blank
  have "customizedResume a = None" and "specificChanges a = None"
    and "coverLetter a =
           Some ''Cover letter generation returned an empty response. Please try again.''"
    by blast+
  with run r j analysis customize changes letter blank show ?thesis by blast
qed

subsection \<open>C6: a failing cover-letter call\<close>

text \<open>
  Claim C6: when the cover-letter generation call fails during a full run (the analysis
  call having succeeded, the job description not being empty), the call does not
  reject: the response is a success whose \<open>coverLetter\<close> is the sentence "Cover letter
  generation failed: ... . Please try again." around the message of the thrown error,
  or around "Unknown error" when the thrown value is not an error object.
\<close>

theorem cover_letter_failure_becomes_text:
  assumes "trim r \<noteq> []" and "trim j \<noteq> []"
    and "openai (user_request (analysisPrompt r j) (7 / 10)) = Inr analysisResp"
    and "openai (user_request (coverLetterPrompt r j) (8 / 10)) = Inl coverLetterErr"
  shows "\<exists>a sent. analyze_resume (Some openai) (Some r) (Some j) = (Success a, sent)
           \<and> coverLetter a =
               Some (''Cover letter generation failed: ''
                     @ (case coverLetterErr of Error m \<Rightarrow> m | NonError \<Rightarrow> ''Unknown error'')
                     @ ''. Please try again.'')"
  using assms
  by (simp add: run_eligible failed_cover_letter_def split: sum.splits)

text \<open>Claim C6 on the run of \<open>letter_down\<close>, whose cover-letter call fails with "quota exceeded".\<close>

theorem cover_letter_failure_becomes_text_witness:
  "trim ''R'' \<noteq> [] \<and> trim ''J'' \<noteq> []
   \<and> letter_down (user_request (analysisPrompt ''R'' ''J'') (7 / 10)) = Inr (completion ''no json'')
   \<and> letter_down (user_request (coverLetterPrompt ''R'' ''J'') (8 / 10)) =
       Inl (Error ''quota exceeded'')
   \<and> (\<exists>a sent. analyze_resume (Some letter_down) (Some ''R'') (Some ''J'') = (Success a, sent)
         \<and> coverLetter a =
             Some ''Cover letter generation failed: quota exceeded. Please try again.'')"
proof -
  have r: "trim ''R'' \<noteq> []" and j: "trim ''J'' \<noteq> []" by simp_all
  have analysis: "letter_down (user_request (analysisPrompt ''R'' ''J'') (7 / 10)) = Inr (completion ''no json'')"
    and letter: "letter_down (user_request (coverLetterPrompt ''R'' ''J'') (8 / 10)) =
       Inl (Error ''quota exceeded'')"
    by (simp_all add: letter_down_def)
  from cover_letter_failure_becomes_text [where openai = letter_down, OF r j analysis letter]
  have "\<exists>a sent. analyze_resume (Some letter_down) (Some ''R'') (Some ''J'') = (Success a, sent)
         \<and> coverLetter a =
             Some ''Cover letter generation failed: quota exceeded. Please try again.''"
    by simp
  with r j analysis letter show ?thesis by blast
qed

subsection \<open>C7: the cover-letter-only run\<close>

text \<open>
  Claim C7: a cover-letter-only run that succeeds (the server answers OK with a
  non-empty string \<open>coverLetter\<close> that is not one of the two failure notices) replaces
  only the \<open>coverLetter\<close> of the previously stored result and leaves its strengths,
  improvements, tailoring, customizedResume and specificChanges as they were; and when
  the resume text or the job description trims to the empty string, the run ends with
  the validation toast titled "Error", the stored result untouched, before any request
  is fetched.
\<close>

theorem cover_letter_only_run:
  "(trim (resumeText st) = [] \<or> trim (jobDescription st) = [] \<longrightarrow>
      handleGenerateCoverLetter fetch st =
        toast (if trim (resumeText st) = [] then resume_missing_toast else job_missing_toast) st
      \<and> fetched (handleGenerateCoverLetter fetch st) = fetched st
      \<and> analysis (handleGenerateCoverLetter fetch st) = analysis st)
   \<and> (trim (resumeText st) \<noteq> [] \<and> trim (jobDescription st) \<noteq> []
      \<and> fetch (analyze_request (resumeText st) (jobDescription st)) = Inr resp \<and> ok resp
      \<and> json resp = Inr raw \<and> get_prop raw ''coverLetter'' = Inr (Some (JString coverLetterText))
      \<and> coverLetterText \<noteq> []
      \<and> \<not> includes_str coverLetterText ''generation failed''
      \<and> \<not> includes_str coverLetterText ''empty response''
      \<and> analysis st = Some previous \<longrightarrow>
      analysis (handleGenerateCoverLetter fetch st) =
        Some (previous\<lparr>coverLetter := Some coverLetterText\<rparr>))"
  by (auto simp add: handleGenerateCoverLetter_def toast_def request_cover_letter_def
      merge_cover_letter_def Let_def)

text \<open>
  Claim C7 on two runs against \<open>letter_server\<close>: from \<open>blank_job\<close>, whose job
  description is white space, and from \<open>analysed\<close>, which holds \<open>earlier_result\<close>.
\<close>

theorem cover_letter_only_run_witness:
  "trim (jobDescription blank_job) = []
   \<and> handleGenerateCoverLetter letter_server blank_job = toast job_missing_toast blank_job
   \<and> fetched (handleGenerateCoverLetter letter_server blank_job) = []
   \<and> analysis (handleGenerateCoverLetter letter_server blank_job) = Some earlier_result
   \<and> trim (resumeText analysed) \<noteq> [] \<and> trim (jobDescription analysed) \<noteq> []
   \<and> analysis analysed = Some earlier_result
   \<and> analysis (handleGenerateCoverLetter letter_server analysed) =
       Some \<lparr>strengths = [JString ''s''], improvements = [JString ''i''],
             tailoring = [JString ''t''], customizedResume = Some ''Tailored resume'',
             specificChanges = Some ''SECTION: Skills'',
             coverLetter = Some ''Dear Hiring Manager,''\<rparr>"
proof -
  let ?raw = "JObject [(''strengths'', JArray [JString ''other'']), (''improvements'', JArray []),
                       (''tailoring'', JArray []), (''coverLetter'', JString ''Dear Hiring Manager,'')]"
  let ?resp = "\<lparr>ok = True, status = 200, json = Inr ?raw\<rparr>"
  have blank: "trim (jobDescription blank_job) = []"
    and resume: "trim (resumeText blank_job) \<noteq> []"
    and log: "fetched blank_job = []"
    and kept: "analysis blank_job = Some earlier_result"
    by (simp_all add: blank_job_def analysed_def fresh_def)
  have ready: "trim (resumeText analysed) \<noteq> []" "trim (jobDescription analysed) \<noteq> []"
    and earlier: "analysis analysed = Some earlier_result"
    by (simp_all add: analysed_def fresh_def)
  have answer: "letter_server (analyze_request (resumeText analysed) (jobDescription analysed)) = Inr ?resp"
    by (simp add: letter_server_def)
  have letter: "get_prop ?raw ''coverLetter'' = Inr (Some (JString ''Dear Hiring Manager,''))"
    by simp
  from cover_letter_only_run [of blank_job letter_server] blank resume log kept
  have first: "handleGenerateCoverLetter letter_server blank_job = toast job_missing_toast blank_job
      \<and> fetched (handleGenerateCoverLetter letter_server blank_job) = []
      \<and> analysis (handleGenerateCoverLetter letter_server blank_job) = Some earlier_result"
    by (simp add: toast_def)
  from cover_letter_only_run
    [of analysed letter_server ?resp ?raw "''Dear Hiring Manager,''" earlier_result]
    ready earlier answer letter
  have "analysis (handleGenerateCoverLetter letter_server analysed) =
          Some (earlier_result\<lparr>coverLetter := Some ''Dear Hiring Manager,''\<rparr>)"
    by simp
  then have second: "analysis (handleGenerateCoverLetter letter_server analysed) =
       Some \<lparr>strengths = [JString ''s''], improvements = [JString ''i''],
             tailoring = [JString ''t''], customizedResume = Some ''Tailored resume'',
             specificChanges = Some ''SECTION: Skills'',
             coverLetter = Some ''Dear Hiring Manager,''\<rparr>"
    by (simp add: earlier_result_def)
  from blank first ready earlier second show ?thesis by blast
qed

subsection \<open>C8: the text extracted from a valid PDF\<close>

text \<open>
  Claim C8: for every valid PDF (a file that passes the type and size checks, whose
  buffer the decoder accepts, and all of whose pages yield their items), the extracted
  text is the text runs of each page joined by single spaces, the pages joined by
  exactly one newline in ascending page order, and the whole trimmed. The run of an
  item is its \<open>str\<close>; a marked-content item, which \<open>getTextContent()\<close> yields only on
  request, counts as an empty run.
\<close>

theorem extracted_text_of_valid_pdf:
  assumes "file_type file = ''application/pdf'' \<or> endsWith (toLowerCase (file_name file)) ''.pdf''"
    and "file_size file \<le> 5 * 1024 * 1024"
    and "arrayBuffer file = Inr buffer"
    and "getDocument buffer = Inr (map (\<lambda>items. Inr (Inr items)) pages)"
  shows "resumeText (handleFileUpload getDocument file st) =
           trim (join (map (\<lambda>items. join (map item_str items) '' '') pages) ''\<newline>'')"
proof -
  from assms(1) have accepted:
    "\<not> (file_type file \<noteq> ''application/pdf'' \<and> \<not> endsWith (toLowerCase (file_name file)) ''.pdf'')"
    by blast
  from assms(2) have small: "\<not> file_size file > 5 * 1024 * 1024" by simp
  note read = read_pdf_valid [where getDocument = getDocument, OF assms(3,4)]
  show ?thesis
    unfolding handleFileUpload_def
    by (simp only: accepted small if_False read prod.case sum.case)
      (simp add: toast_def trim_pages)
qed

text \<open>Claim C8 on the two-page \<open>resume_pdf\<close>, uploaded into a fresh component.\<close>

theorem extracted_text_of_valid_pdf_witness:
  "(file_type resume_pdf = ''application/pdf'' \<or> endsWith (toLowerCase (file_name resume_pdf)) ''.pdf'')
   \<and> file_size resume_pdf \<le> 5 * 1024 * 1024
   \<and> arrayBuffer resume_pdf = Inr [37, 80, 68]
   \<and> resume_decoder [37, 80, 68] =
       Inr (map (\<lambda>items. Inr (Inr items)) [[TextItem ''Jane'', TextItem ''Doe''], [TextItem ''Engineer '']])
   \<and> resumeText (handleFileUpload resume_decoder resume_pdf fresh) = ''Jane Doe\<newline>Engineer''"
proof -
  have pdf: "file_type resume_pdf = ''application/pdf'' \<or> endsWith (toLowerCase (file_name resume_pdf)) ''.pdf''"
    and small: "file_size resume_pdf \<le> 5 * 1024 * 1024"
    and buffer: "arrayBuffer resume_pdf = Inr [37, 80, 68]"
    by (simp_all add: resume_pdf_def)
  have decodes: "resume_decoder [37, 80, 68] =
       Inr (map (\<lambda>items. Inr (Inr items)) [[TextItem ''Jane'', TextItem ''Doe''], [TextItem ''Engineer '']])"
    by (simp add: resume_decoder_def two_pages_def)
  have "trim (join (map (\<lambda>items. join (map item_str items) '' '')
                     [[TextItem ''Jane'', TextItem ''Doe''], [TextItem ''Engineer '']]) ''\<newline>'') =
        ''Jane Doe\<newline>Engineer''"
    by (simp add: item_str_def trim_def is_white_space_def)
  with extracted_text_of_valid_pdf
    [where getDocument = resume_decoder and st = fresh, OF pdf small buffer decodes]
  have "resumeText (handleFileUpload resume_decoder resume_pdf fresh) = ''Jane Doe\<newline>Engineer''"
    by simp
  with pdf small buffer decodes show ?thesis by blast
qed

subsection \<open>C9: files rejected before decoding\<close>

text \<open>
  Claim C9, as stated, fails at these inputs. \<open>plain_text_named_pdf\<close> has the media type
  \<open>text/plain\<close> and a name that ends in \<open>.PDF\<close>: it is not rejected, its buffer is
  decoded and its text extracted. \<open>huge_text_file\<close> is of 5 MiB + 1 byte, neither a PDF by
  type nor by name: it is rejected as an invalid type, not as too large.
\<close>

theorem pdf_suffix_and_check_order_counterexample:
  "file_type plain_text_named_pdf \<noteq> ''application/pdf''
   \<and> handleFileUpload resume_decoder plain_text_named_pdf fresh \<noteq> toast invalid_type_toast fresh
   \<and> decoded (handleFileUpload resume_decoder plain_text_named_pdf fresh) = [[37, 80, 68]]
   \<and> resumeText (handleFileUpload resume_decoder plain_text_named_pdf fresh) = ''Jane Doe\<newline>Engineer''
   \<and> file_size huge_text_file \<ge> 5 * 1024 * 1024 + 1
   \<and> handleFileUpload resume_decoder huge_text_file fresh \<noteq> toast too_large_toast fresh
   \<and> handleFileUpload resume_decoder huge_text_file fresh = toast invalid_type_toast fresh"
proof -
  have run: "handleFileUpload resume_decoder plain_text_named_pdf fresh =
     fresh\<lparr>resumeText := ''Jane Doe\<newline>Engineer'', uploadedFile := Some plain_text_named_pdf,
            toasts := [\<lparr>title = ''PDF uploaded successfully'',
                        description = Text ''Notes.PDF has been uploaded and processed.'',
                        destructive = False\<rparr>],
            decoded := [[37, 80, 68]]\<rparr>"
    by (simp add: handleFileUpload_def plain_text_named_pdf_def resume_pdf_def read_pdf_def
        resume_decoder_def two_pages_def page_loop.simps numPages_def getPage_def item_str_def
        toast_def fresh_def trim_def is_white_space_def)
  have other: "handleFileUpload resume_decoder huge_text_file fresh = toast invalid_type_toast fresh"
    by (simp add: handleFileUpload_def huge_text_file_def resume_pdf_def)
  from run other show ?thesis
    by (simp add: toast_def fresh_def plain_text_named_pdf_def huge_text_file_def resume_pdf_def
        invalid_type_toast_def too_large_toast_def)
qed

text \<open>
  Claim C9, amended: the upload fails with the invalid-type toast for every file whose
  media type is not \<open>application/pdf\<close> and whose name, in lower case, does not end in
  \<open>.pdf\<close>; it fails with the too-large toast for every file that passes that check and
  whose size is at least 5 MiB + 1 byte; in both cases the state is otherwise unchanged
  and nothing is handed to the decoder.
\<close>

theorem rejected_before_decoding:
  "(file_type file \<noteq> ''application/pdf'' \<and> \<not> endsWith (toLowerCase (file_name file)) ''.pdf'' \<longrightarrow>
      handleFileUpload getDocument file st = toast invalid_type_toast st
      \<and> decoded (handleFileUpload getDocument file st) = decoded st)
   \<and> ((file_type file = ''application/pdf'' \<or> endsWith (toLowerCase (file_name file)) ''.pdf'')
        \<and> file_size file \<ge> 5 * 1024 * 1024 + 1 \<longrightarrow>
      handleFileUpload getDocument file st = toast too_large_toast st
      \<and> decoded (handleFileUpload getDocument file st) = decoded st)"
  by (auto simp add: handleFileUpload_def toast_def)

text \<open>Claim C9, amended, on \<open>huge_text_file\<close> and on \<open>huge_pdf\<close>.\<close>

theorem rejected_before_decoding_witness:
  "file_type huge_text_file \<noteq> ''application/pdf''
   \<and> \<not> endsWith (toLowerCase (file_name huge_text_file)) ''.pdf''
   \<and> handleFileUpload resume_decoder huge_text_file fresh = toast invalid_type_toast fresh
   \<and> decoded (handleFileUpload resume_decoder huge_text_file fresh) = decoded fresh
   \<and> file_type huge_pdf = ''application/pdf''
   \<and> file_size huge_pdf \<ge> 5 * 1024 * 1024 + 1
   \<and> handleFileUpload resume_decoder huge_pdf fresh = toast too_large_toast fresh
   \<and> decoded (handleFileUpload resume_decoder huge_pdf fresh) = decoded fresh"
proof -
  have text_file: "file_type huge_text_file \<noteq> ''application/pdf''
      \<and> \<not> endsWith (toLowerCase (file_name huge_text_file)) ''.pdf''"
    by (simp add: huge_text_file_def resume_pdf_def)
  have pdf_file: "(file_type huge_pdf = ''application/pdf'' \<or> endsWith (toLowerCase (file_name huge_pdf)) ''.pdf'')
      \<and> file_size huge_pdf \<ge> 5 * 1024 * 1024 + 1"
    by (simp add: huge_pdf_def resume_pdf_def)
  have "file_type huge_pdf = ''application/pdf''" and "file_size huge_pdf \<ge> 5 * 1024 * 1024 + 1"
    by (simp_all add: huge_pdf_def resume_pdf_def)
  with rejected_before_decoding [of huge_text_file resume_decoder fresh] text_file
    rejected_before_decoding [of huge_pdf resume_decoder fresh] pdf_file
  show ?thesis by blast
qed

subsection \<open>C10: a cover-letter-only run that fails\<close>

text \<open>
  Claim C10: if a cover-letter-only run fails at any point (the fetch rejects, the
  response is not OK, its body does not parse, it lacks a string \<open>coverLetter\<close>, or that
  string is empty or contains "generation failed" or "empty response"), the stored
  result is left unchanged: no field of it, \<open>coverLetter\<close> included, is modified.
\<close>

theorem failed_cover_letter_run_keeps_analysis:
  assumes "(\<exists>err. fetch (analyze_request (resumeText st) (jobDescription st)) = Inl err)
     \<or> (\<exists>resp. fetch (analyze_request (resumeText st) (jobDescription st)) = Inr resp
           \<and> (\<not> ok resp
              \<or> (\<exists>err. json resp = Inl err)
              \<or> (\<exists>raw. json resp = Inr raw
                    \<and> ((\<forall>s. get_prop raw ''coverLetter'' \<noteq> Inr (Some (JString s)))
                       \<or> (\<exists>s. get_prop raw ''coverLetter'' = Inr (Some (JString s))
                             \<and> (s = [] \<or> includes_str s ''generation failed''
                                \<or> includes_str s ''empty response''))))))"
  shows "analysis (handleGenerateCoverLetter fetch st) = analysis st"
proof (cases "trim (resumeText st) = [] \<or> trim (jobDescription st) = []")
  case True
  then show ?thesis
    by (auto simp add: handleGenerateCoverLetter_def toast_def)
next
  case False
  from assms have "\<exists>err. fst (request_cover_letter fetch st) = Inl err"
    by (auto simp add: request_cover_letter_def Let_def split: sum.splits option.splits json.splits)
  with handleGenerateCoverLetter_failed show ?thesis by blast
qed

text \<open>
  Claim C10 on three runs from \<open>analysed\<close>: against a server that answers 503, against
  one whose answer has no cover letter, and against one whose cover letter is the
  failure notice.
\<close>

theorem failed_cover_letter_run_keeps_analysis_witness:
  "unconfigured_server (analyze_request (resumeText analysed) (jobDescription analysed)) =
     Inr \<lparr>ok = False, status = 503,
          json = Inr (JObject [(''error'', JString ''OpenAI API key not configured'')])\<rparr>
   \<and> analysis (handleGenerateCoverLetter unconfigured_server analysed) = Some earlier_result
   \<and> get_prop (JObject [(''strengths'', JArray []), (''improvements'', JArray []),
                          (''tailoring'', JArray [])]) ''coverLetter'' = Inr None
   \<and> analysis (handleGenerateCoverLetter letterless_server analysed) = Some earlier_result
   \<and> includes_str ''Cover letter generation failed: quota exceeded. Please try again.''
        ''generation failed''
   \<and> analysis (handleGenerateCoverLetter failing_letter_server analysed) = Some earlier_result"
proof -
  have earlier: "analysis analysed = Some earlier_result"
    by (simp add: analysed_def fresh_def)
  have down: "unconfigured_server (analyze_request (resumeText analysed) (jobDescription analysed)) =
     Inr \<lparr>ok = False, status = 503,
          json = Inr (JObject [(''error'', JString ''OpenAI API key not configured'')])\<rparr>"
    by (simp add: unconfigured_server_def)
  have missing: "get_prop (JObject [(''strengths'', JArray []), (''improvements'', JArray []),
                          (''tailoring'', JArray [])]) ''coverLetter'' = Inr None"
    by simp
  have notice: "includes_str ''Cover letter generation failed: quota exceeded. Please try again.''
        ''generation failed''"
    by simp
  have "analysis (handleGenerateCoverLetter unconfigured_server analysed) = analysis analysed"
    by (rule failed_cover_letter_run_keeps_analysis) (simp add: unconfigured_server_def)
  moreover
  have "analysis (handleGenerateCoverLetter letterless_server analysed) = analysis analysed"
    by (rule failed_cover_letter_run_keeps_analysis) (simp add: letterless_server_def)
  moreover
  have "analysis (handleGenerateCoverLetter failing_letter_server analysed) = analysis analysed"
    by (rule failed_cover_letter_run_keeps_analysis) (simp add: failing_letter_server_def)
  ultimately show ?thesis using earlier down missing notice by simp
qed

end
